theory Spec2Isabelle
  imports Main
begin

section \<open>The environment of the two scripts\<close>

text \<open>
  Both scripts are straight-line Python over the Pillow imaging library. What they do
  beyond computing is made explicit here: the image files on disk and the console are a
  record that every step takes and returns, and an exception of a library call is a
  value \<open>Inl\<close> that ends the run, paired with the state reached when it was raised.
\<close>

type_synonym path = string

type_synonym rgb = "int \<times> int \<times> int"

type_synonym bbox = "int \<times> int \<times> int \<times> int"

datatype exn = FileNotFoundError | UnidentifiedImageError | OSError | ValueError

datatype resampling = NEAREST | BOX | BILINEAR | HAMMING | BICUBIC | LANCZOS

text \<open>
  \<open>files\<close> holds the image files by path name, each with the raster it decodes to;
  \<open>stdout\<close> holds one entry per \<open>print\<close> call, oldest first.
\<close>

record 'img world =
  files :: "path \<rightharpoonup> 'img"
  stdout :: "string list"

type_synonym 'img outcome = "exn \<times> 'img world + 'img world"

definition print_line :: "string \<Rightarrow> 'img world \<Rightarrow> 'img world" where
  "print_line s w = w\<lparr>stdout := stdout w @ [s]\<rparr>"

text \<open>
  Pillow is not part of the repository, so the calls the scripts make into it are the
  fields of a record that every definition below takes as its first argument. Every
  call that reads or writes the disk, loads a font, measures or draws text, or validates
  its arguments may raise; \<open>Image_save\<close> also says what the disk holds after a failed
  write. \<open>ImageDraw_text\<close> returns the image that \<open>img\<close> denotes after the drawing
  context, which aliases it, has drawn on it.
\<close>

record ('img, 'font) pil =
  Image_open :: "path \<Rightarrow> (path \<rightharpoonup> 'img) \<Rightarrow> exn + 'img"
  Image_new :: "string \<Rightarrow> int \<times> int \<Rightarrow> string \<Rightarrow> 'img"
  Image_size :: "'img \<Rightarrow> int \<times> int"
  Image_getpixel :: "'img \<Rightarrow> int \<times> int \<Rightarrow> rgb"
  Image_resize :: "'img \<Rightarrow> int \<times> int \<Rightarrow> resampling \<Rightarrow> exn + 'img"
  Image_save :: "'img \<Rightarrow> path \<Rightarrow> string \<Rightarrow> (path \<rightharpoonup> 'img)
                   \<Rightarrow> exn \<times> (path \<rightharpoonup> 'img) + (path \<rightharpoonup> 'img)"
  ImageColor_getrgb :: "string \<Rightarrow> rgb"
  ImageFont_truetype :: "path \<Rightarrow> int \<Rightarrow> exn + 'font"
  ImageFont_load_default :: "exn + 'font"
  ImageDraw_textbbox :: "'img \<Rightarrow> int \<times> int \<Rightarrow> string \<Rightarrow> 'font \<Rightarrow> exn + bbox"
  ImageDraw_text :: "'img \<Rightarrow> int \<times> int \<Rightarrow> string \<Rightarrow> string \<Rightarrow> 'font \<Rightarrow> exn + 'img"

subsection \<open>Python built-ins the scripts use\<close>

text \<open>\<open>os.path.join\<close> of two components, as \<open>posixpath\<close> defines it.\<close>

definition path_join :: "path \<Rightarrow> path \<Rightarrow> path" where
  "path_join a b =
     (if take 1 b = ''/'' then b
      else if a = [] \<or> last a = CHR ''/'' then a @ b
      else a @ ''/'' @ b)"

text \<open>\<open>str\<close> of an integer, as the f-strings of the progress lines format it.\<close>

fun digits :: "nat \<Rightarrow> string" where
  "digits n =
     (if n < 10 then [''0123456789'' ! n]
      else digits (n div 10) @ [''0123456789'' ! (n mod 10)])"

declare digits.simps [simp del]

definition str :: "int \<Rightarrow> string" where
  "str i = (if i < 0 then CHR ''-'' # digits (nat (- i)) else digits (nat i))"

section \<open>generate_icons.py\<close>

definition source_icon :: "path \<Rightarrow> path" where
  "source_icon base_dir =
     path_join base_dir
       ''MeetingCopilot/Assets.xcassets/AppIcon.appiconset/icon_1024x1024.png''"

definition output_dir_gen :: "path \<Rightarrow> path" where
  "output_dir_gen base_dir =
     path_join base_dir ''MeetingCopilot/Assets.xcassets/AppIcon.appiconset''"

text \<open>The manifest: a dict literal, kept in its insertion order, which \<open>items()\<close> follows.\<close>

definition icons_gen :: "(string \<times> int) list" where
  "icons_gen =
     [(''icon_20x20@2x.png'', 40),
      (''icon_20x20@3x.png'', 60),
      (''icon_29x29@2x.png'', 58),
      (''icon_29x29@3x.png'', 87),
      (''icon_40x40@2x.png'', 80),
      (''icon_40x40@3x.png'', 120),
      (''icon_60x60@2x.png'', 120),
      (''icon_60x60@3x.png'', 180),
      (''icon_20x20.png'', 20),
      (''icon_20x20@2x-ipad.png'', 40),
      (''icon_29x29.png'', 29),
      (''icon_29x29@2x-ipad.png'', 58),
      (''icon_40x40.png'', 40),
      (''icon_40x40@2x-ipad.png'', 80),
      (''icon_76x76.png'', 76),
      (''icon_76x76@2x.png'', 152),
      (''icon_83.5x83.5@2x.png'', 167)]"

text \<open>The loop of lines 39 to 43, over the items still to be processed.\<close>

fun icons_loop_gen ::
  "('img, 'font) pil \<Rightarrow> path \<Rightarrow> 'img \<Rightarrow> (string \<times> int) list \<Rightarrow> 'img world \<Rightarrow> 'img outcome"
where
  "icons_loop_gen L output_dir img [] w = Inr w"
| "icons_loop_gen L output_dir img ((filename, size') # rest) w =
     (let output_path = path_join output_dir filename in
      case Image_resize L img (size', size') LANCZOS of
        Inl e \<Rightarrow> Inl (e, w)
      | Inr resized \<Rightarrow>
          (case Image_save L resized output_path ''PNG'' (files w) of
             Inl (e, fs) \<Rightarrow> Inl (e, w\<lparr>files := fs\<rparr>)
           | Inr fs \<Rightarrow>
               icons_loop_gen L output_dir img rest
                 (print_line
                    (''Created '' @ filename @ '' ('' @ str size' @ ''x'' @ str size' @ '')'')
                    (w\<lparr>files := fs\<rparr>))))"

text \<open>
  The whole script. \<open>base_dir\<close> is the directory of the script file, which the
  interpreter supplies (\<open>os.path.dirname(os.path.abspath(__file__))\<close>).
\<close>

definition generate_icons :: "('img, 'font) pil \<Rightarrow> path \<Rightarrow> 'img world \<Rightarrow> 'img outcome" where
  "generate_icons L base_dir w =
     (let w1 = print_line (''Loading source icon: '' @ source_icon base_dir) w in
      case Image_open L (source_icon base_dir) (files w1) of
        Inl e \<Rightarrow> Inl (e, w1)
      | Inr img \<Rightarrow>
          (case icons_loop_gen L (output_dir_gen base_dir) img icons_gen w1 of
             Inl x \<Rightarrow> Inl x
           | Inr w2 \<Rightarrow>
               Inr (print_line (CHR 0x0A # ''All icons generated successfully!'') w2)))"

section \<open>create_placeholder_icon.py\<close>

definition output_dir_ph :: path where
  "output_dir_ph = ''MeetingCopilot/Assets.xcassets/AppIcon.appiconset''"

definition size_ph :: int where
  "size_ph = 1024"

text \<open>Line 10: the blank canvas.\<close>

definition canvas :: "('img, 'font) pil \<Rightarrow> 'img" where
  "canvas L = Image_new L ''RGB'' (size_ph, size_ph) ''#007AFF''"

text \<open>
  Lines 14 to 17: the \<open>try\<close> with its bare \<open>except\<close>. The handler's own call,
  \<open>load_default\<close> at line 17, is not guarded: what it raises leaves the statement.
\<close>

definition select_font :: "('img, 'font) pil \<Rightarrow> exn + 'font" where
  "select_font L =
     (case ImageFont_truetype L ''/System/Library/Fonts/Helvetica.ttc'' 400 of
        Inl e \<Rightarrow> ImageFont_load_default L
      | Inr font \<Rightarrow> Inr font)"

definition text_ph :: string where
  "text_ph = ''MC''"

text \<open>Lines 22 to 27: where the label is drawn, from its bounding box at the origin.\<close>

definition text_origin :: "bbox \<Rightarrow> int \<times> int" where
  "text_origin bbox =
     (case bbox of (b0, b1, b2, b3) \<Rightarrow>
        let text_width = b2 - b0;
            text_height = b3 - b1;
            x = (size_ph - text_width) div 2 - b0;
            y = (size_ph - text_height) div 2 - b1
        in (x, y))"

text \<open>
  Lines 21 to 29: the canvas with the label drawn on it. Both calls stand outside the
  \<open>try\<close>: an exception of \<open>textbbox\<close> at line 21 or of \<open>draw.text\<close> at line 29 is
  the result.
\<close>

definition placeholder_image :: "('img, 'font) pil \<Rightarrow> 'font \<Rightarrow> exn + 'img" where
  "placeholder_image L font =
     (case ImageDraw_textbbox L (canvas L) (0, 0) text_ph font of
        Inl e \<Rightarrow> Inl e
      | Inr bbox \<Rightarrow> ImageDraw_text L (canvas L) (text_origin bbox) text_ph ''white'' font)"

definition source_path :: path where
  "source_path = path_join output_dir_ph ''icon_1024x1024.png''"

definition icons_ph :: "(string \<times> int) list" where
  "icons_ph =
     [(''icon_20x20@2x.png'', 40),
      (''icon_20x20@3x.png'', 60),
      (''icon_29x29@2x.png'', 58),
      (''icon_29x29@3x.png'', 87),
      (''icon_40x40@2x.png'', 80),
      (''icon_40x40@3x.png'', 120),
      (''icon_60x60@2x.png'', 120),
      (''icon_60x60@3x.png'', 180),
      (''icon_20x20.png'', 20),
      (''icon_20x20@2x-ipad.png'', 40),
      (''icon_29x29.png'', 29),
      (''icon_29x29@2x-ipad.png'', 58),
      (''icon_40x40.png'', 40),
      (''icon_40x40@2x-ipad.png'', 80),
      (''icon_76x76.png'', 76),
      (''icon_76x76@2x.png'', 152),
      (''icon_83.5x83.5@2x.png'', 167)]"

text \<open>The loop of lines 58 to 62.\<close>

fun icons_loop_ph ::
  "('img, 'font) pil \<Rightarrow> path \<Rightarrow> 'img \<Rightarrow> (string \<times> int) list \<Rightarrow> 'img world \<Rightarrow> 'img outcome"
where
  "icons_loop_ph L output_dir img [] w = Inr w"
| "icons_loop_ph L output_dir img ((filename, icon_size) # rest) w =
     (let output_path = path_join output_dir filename in
      case Image_resize L img (icon_size, icon_size) LANCZOS of
        Inl e \<Rightarrow> Inl (e, w)
      | Inr resized \<Rightarrow>
          (case Image_save L resized output_path ''PNG'' (files w) of
             Inl (e, fs) \<Rightarrow> Inl (e, w\<lparr>files := fs\<rparr>)
           | Inr fs \<Rightarrow>
               icons_loop_ph L output_dir img rest
                 (print_line
                    (''Created '' @ filename @ '' ('' @ str icon_size @ ''x''
                       @ str icon_size @ '')'')
                    (w\<lparr>files := fs\<rparr>))))"

text \<open>Lines 19 to 64, once the font is chosen.\<close>

definition placeholder_with_font ::
  "('img, 'font) pil \<Rightarrow> 'font \<Rightarrow> 'img world \<Rightarrow> 'img outcome"
where
  "placeholder_with_font L font w =
     (case placeholder_image L font of
        Inl e \<Rightarrow> Inl (e, w)
      | Inr img \<Rightarrow>
          (case Image_save L img source_path ''PNG'' (files w) of
             Inl (e, fs) \<Rightarrow> Inl (e, w\<lparr>files := fs\<rparr>)
           | Inr fs \<Rightarrow>
               (let w1 = print_line (''Created source icon: '' @ source_path)
                           (w\<lparr>files := fs\<rparr>) in
                case icons_loop_ph L output_dir_ph img icons_ph w1 of
                  Inl x \<Rightarrow> Inl x
                | Inr w2 \<Rightarrow>
                    Inr (print_line (CHR 0x0A # ''All icons generated successfully!'') w2))))"

text \<open>The whole script.\<close>

definition create_placeholder_icon :: "('img, 'font) pil \<Rightarrow> 'img world \<Rightarrow> 'img outcome" where
  "create_placeholder_icon L w =
     (case select_font L of
        Inl e \<Rightarrow> Inl (e, w)
      | Inr font \<Rightarrow> placeholder_with_font L font w)"

section \<open>The resize loop over a library that keeps state\<close>

text \<open>
  Pillow may keep state of its own between calls. To ask whether the resize step is
  repeatable, the loop of lines 39 to 43 of \<open>generate_icons.py\<close> is embedded once more,
  with an \<open>img.resize\<close> that reads such a state and returns it updated. Saving is as
  before. With a resize that ignores the state this is \<open>icons_loop_gen\<close>.
\<close>

type_synonym ('st, 'img) resize_st =
  "'st \<Rightarrow> 'img \<Rightarrow> int \<times> int \<Rightarrow> resampling \<Rightarrow> (exn + 'img) \<times> 'st"

fun icons_loop_st ::
  "('st, 'img) resize_st \<Rightarrow> ('img, 'font) pil \<Rightarrow> path \<Rightarrow> 'img \<Rightarrow> (string \<times> int) list
     \<Rightarrow> 'st \<Rightarrow> 'img world \<Rightarrow> 'img outcome \<times> 'st"
where
  "icons_loop_st rsz L output_dir img [] s w = (Inr w, s)"
| "icons_loop_st rsz L output_dir img ((filename, size') # rest) s w =
     (let output_path = path_join output_dir filename in
      case rsz s img (size', size') LANCZOS of
        (Inl e, s') \<Rightarrow> (Inl (e, w), s')
      | (Inr resized, s') \<Rightarrow>
          (case Image_save L resized output_path ''PNG'' (files w) of
             Inl (e, fs) \<Rightarrow> (Inl (e, w\<lparr>files := fs\<rparr>), s')
           | Inr fs \<Rightarrow>
               icons_loop_st rsz L output_dir img rest s'
                 (print_line
                    (''Created '' @ filename @ '' ('' @ str size' @ ''x'' @ str size' @ '')'')
                    (w\<lparr>files := fs\<rparr>))))"

section \<open>What the scripts rely on from Pillow\<close>

text \<open>
  Modelled from the spec: \<open>Image.resize\<close> of Pillow, which the repository calls and does
  not contain. Section 4.2: the call "produces a new image resized to (target, target)
  pixels". A call that returns gives an image of the requested size.
\<close>

definition resize_contract :: "('img, 'font) pil \<Rightarrow> bool" where
  "resize_contract L \<longleftrightarrow>
     (\<forall>img w h f r. Image_resize L img (w, h) f = Inr r \<longrightarrow> Image_size L r = (w, h))"

text \<open>
  Modelled from the spec: \<open>Image.save\<close> of Pillow. Section 4.2: the image is written "to
  the output directory under the entry's filename, encoded losslessly". A call that
  returns has stored the raster under the path and changed no other file.
\<close>

definition save_contract :: "('img, 'font) pil \<Rightarrow> bool" where
  "save_contract L \<longleftrightarrow>
     (\<forall>img p fmt fs fs'. Image_save L img p fmt fs = Inr fs' \<longrightarrow> fs' = fs(p \<mapsto> img))"

text \<open>
  Modelled from the spec: \<open>Image.new\<close> of Pillow. Section 4.1: "a square raster image of
  fixed edge length (1024), filled with a constant background color". The new image has
  the requested size and the given colour at every pixel inside it.
\<close>

definition new_contract :: "('img, 'font) pil \<Rightarrow> bool" where
  "new_contract L \<longleftrightarrow>
     (\<forall>mode w h c.
        Image_size L (Image_new L mode (w, h) c) = (w, h) \<and>
        (\<forall>x y. 0 \<le> x \<and> x < w \<and> 0 \<le> y \<and> y < h \<longrightarrow>
           Image_getpixel L (Image_new L mode (w, h) c) (x, y) = ImageColor_getrgb L c))"

text \<open>
  Modelled from the spec: \<open>ImageDraw.text\<close> of Pillow, which paints on the image it is
  given and leaves its dimensions alone.
\<close>

definition text_contract :: "('img, 'font) pil \<Rightarrow> bool" where
  "text_contract L \<longleftrightarrow>
     (\<forall>img xy t fill font r.
        ImageDraw_text L img xy t fill font = Inr r \<longrightarrow> Image_size L r = Image_size L img)"

text \<open>
  Modelled from the spec: \<open>ImageDraw.textbbox\<close> of Pillow, the "measured bounding box" of
  section 4.1. The box of a label drawn at \<open>(x, y)\<close> is its box at the origin moved by
  \<open>(x, y)\<close>.
\<close>

definition textbbox_contract :: "('img, 'font) pil \<Rightarrow> bool" where
  "textbbox_contract L \<longleftrightarrow>
     (\<forall>img x y t font l tp r b.
        ImageDraw_textbbox L img (0, 0) t font = Inr (l, tp, r, b) \<longrightarrow>
        ImageDraw_textbbox L img (x, y) t font = Inr (l + x, tp + y, r + x, b + y))"

text \<open>
  Modelled from the spec: \<open>ImageDraw.text\<close> and \<open>ImageDraw.textbbox\<close> of Pillow
  together. Section 4.1 centres the label "using the rendered text's measured bounding
  box": what \<open>text\<close> paints at a position lies inside the box \<open>textbbox\<close> measures at
  that position, left and top edges included, right and bottom edges excluded. Every
  pixel outside it is as it was.
\<close>

definition text_ink_contract :: "('img, 'font) pil \<Rightarrow> bool" where
  "text_ink_contract L \<longleftrightarrow>
     (\<forall>img xy t fill font im l tp r b px py.
        ImageDraw_text L img xy t fill font = Inr im \<and>
        ImageDraw_textbbox L img xy t font = Inr (l, tp, r, b) \<and>
        \<not> (l \<le> px \<and> px < r \<and> tp \<le> py \<and> py < b) \<longrightarrow>
        Image_getpixel L im (px, py) = Image_getpixel L img (px, py))"

text \<open>
  Modelled from the spec: \<open>Image.resize\<close> of Pillow on an image of one colour. Section 8:
  "resizing a flat-color image preserves color". When the source has pixels and every
  one of them has the colour \<open>c\<close>, so has every pixel of the image a returning call
  gives.
\<close>

definition resize_flat_contract :: "('img, 'font) pil \<Rightarrow> bool" where
  "resize_flat_contract L \<longleftrightarrow>
     (\<forall>img w h f r c.
        Image_resize L img (w, h) f = Inr r \<and>
        0 < fst (Image_size L img) \<and> 0 < snd (Image_size L img) \<and>
        (\<forall>x y. 0 \<le> x \<and> x < fst (Image_size L img) \<and> 0 \<le> y \<and> y < snd (Image_size L img) \<longrightarrow>
           Image_getpixel L img (x, y) = c) \<longrightarrow>
        (\<forall>x y. 0 \<le> x \<and> x < w \<and> 0 \<le> y \<and> y < h \<longrightarrow> Image_getpixel L r (x, y) = c))"

text \<open>
  Modelled from the spec: \<open>Image.resize\<close> of Pillow as a call that may depend on state.
  Section 8: "Resizing is deterministic"; section 5: "identical inputs produce
  byte-for-byte-equivalent outputs across runs". Whatever state the library is in, the
  same image, size and filter give the same result.
\<close>

definition resize_deterministic :: "('st, 'img) resize_st \<Rightarrow> bool" where
  "resize_deterministic rsz \<longleftrightarrow>
     (\<forall>s s' img sz f. fst (rsz s img sz f) = fst (rsz s' img sz f))"

text \<open>
  Modelled from the spec: the "average color" of the end-to-end scenario of section 8,
  the mean of each channel over the pixels of the image row by row, rounded down.
\<close>

definition pixels :: "('img, 'font) pil \<Rightarrow> 'img \<Rightarrow> rgb list" where
  "pixels L im =
     (case Image_size L im of
        (w, h) \<Rightarrow>
          concat (map (\<lambda>y. map (\<lambda>x. Image_getpixel L im (int x, int y)) [0..<nat w])
                    [0..<nat h]))"

definition average_colour :: "('img, 'font) pil \<Rightarrow> 'img \<Rightarrow> rgb" where
  "average_colour L im =
     (let ps = pixels L im; n = int (length ps)
      in (sum_list (map fst ps) div n,
          sum_list (map (fst \<circ> snd) ps) div n,
          sum_list (map (snd \<circ> snd) ps) div n))"

subsection \<open>A small instance of the library\<close>

text \<open>
  The contracts can be met together. In this instance an image is its size and one
  colour, a font is the advance of a glyph, the named system font is not installed, and
  a file opens when it is there.
\<close>

definition stub_pil :: "((int \<times> int) \<times> rgb, int) pil" where
  "stub_pil =
     \<lparr>Image_open = (\<lambda>p fs. case fs p of None \<Rightarrow> Inl FileNotFoundError | Some im \<Rightarrow> Inr im),
      Image_new = (\<lambda>mode sz c. (sz, if c = ''#007AFF'' then (0, 122, 255) else (255, 255, 255))),
      Image_size = fst,
      Image_getpixel = (\<lambda>im xy. snd im),
      Image_resize =
        (\<lambda>im (w, h) f. if w \<le> 0 \<or> h \<le> 0 then Inl ValueError else Inr ((w, h), snd im)),
      Image_save = (\<lambda>im p fmt fs. Inr (fs(p \<mapsto> im))),
      ImageColor_getrgb = (\<lambda>c. if c = ''#007AFF'' then (0, 122, 255) else (255, 255, 255)),
      ImageFont_truetype = (\<lambda>p n. Inl OSError),
      ImageFont_load_default = Inr 6,
      ImageDraw_textbbox =
        (\<lambda>im (x, y) t font. Inr (x + 1, y + 2, x + 1 + font * int (length t), y + 13)),
      ImageDraw_text = (\<lambda>im xy t fill font. Inr im)\<rparr>"

definition stub_world :: "((int \<times> int) \<times> rgb) world" where
  "stub_world =
     \<lparr>files = [source_icon ''/repo'' \<mapsto> ((1024, 1024), (0, 122, 255))], stdout = []\<rparr>"

definition empty_world :: "((int \<times> int) \<times> rgb) world" where
  "empty_world = \<lparr>files = Map.empty, stdout = []\<rparr>"

section \<open>Progress lines\<close>

definition created_line :: "string \<times> int \<Rightarrow> string" where
  "created_line = (\<lambda>(filename, n). ''Created '' @ filename @ '' ('' @ str n @ ''x'' @ str n @ '')'')"

text \<open>Everything a complete run of \<open>create_placeholder_icon.py\<close> prints, in order.\<close>

definition progress_ph :: "string list" where
  "progress_ph =
     [''Created source icon: '' @ source_path] @ map created_line icons_ph @
     [CHR 0x0A # ''All icons generated successfully!'']"

subsection \<open>Instances in which a call fails\<close>

text \<open>
  Three variants of the small instance: one whose \<open>resize\<close> refuses edge lengths over
  100, one that cannot write the images of size 120, and one that cannot write at all.
\<close>

definition stub_no_large :: "((int \<times> int) \<times> rgb, int) pil" where
  "stub_no_large =
     stub_pil\<lparr>Image_resize :=
       (\<lambda>im (w, h) f. if 100 < w then Inl ValueError else Inr ((w, h), snd im))\<rparr>"

definition stub_no_120 :: "((int \<times> int) \<times> rgb, int) pil" where
  "stub_no_120 =
     stub_pil\<lparr>Image_save :=
       (\<lambda>im p fmt fs. if fst im = (120, 120) then Inl (OSError, fs) else Inr (fs(p \<mapsto> im)))\<rparr>"

definition stub_disk_full :: "((int \<times> int) \<times> rgb, int) pil" where
  "stub_disk_full = stub_pil\<lparr>Image_save := (\<lambda>im p fmt fs. Inl (OSError, fs))\<rparr>"

text \<open>
  Three more, for the calls of lines 17, 21 and 29. In the first the built-in font is a
  bitmap font, the font \<open>0\<close>, and \<open>textbbox\<close> measures TrueType fonts only; in the
  second there is no built-in font either; in the third \<open>draw.text\<close> fails.
\<close>

definition stub_bitmap :: "((int \<times> int) \<times> rgb, int) pil" where
  "stub_bitmap =
     stub_pil\<lparr>ImageFont_load_default := Inr 0,
       ImageDraw_textbbox :=
         (\<lambda>im (x, y) t font.
            if font = 0 then Inl ValueError
            else Inr (x + 1, y + 2, x + 1 + font * int (length t), y + 13))\<rparr>"

definition stub_no_font :: "((int \<times> int) \<times> rgb, int) pil" where
  "stub_no_font = stub_pil\<lparr>ImageFont_load_default := Inl OSError\<rparr>"

definition stub_no_draw :: "((int \<times> int) \<times> rgb, int) pil" where
  "stub_no_draw = stub_pil\<lparr>ImageDraw_text := (\<lambda>im xy t fill font. Inl ValueError)\<rparr>"

subsection \<open>Two resizes that keep state\<close>

text \<open>
  The state counts the calls. The first resize returns what the small instance returns
  and is deterministic; the second tints the result with the count and is not.
\<close>

definition stub_counting :: "(nat, (int \<times> int) \<times> rgb) resize_st" where
  "stub_counting = (\<lambda>s im (w, h) f. (Inr ((w, h), snd im), Suc s))"

definition stub_tinting :: "(nat, (int \<times> int) \<times> rgb) resize_st" where
  "stub_tinting = (\<lambda>s im (w, h) f. (Inr ((w, h), (int s, int s, int s)), Suc s))"

text \<open>What \<open>path_join\<close> puts in front of a relative component.\<close>

definition dir_prefix :: "path \<Rightarrow> path" where
  "dir_prefix a = (if a = [] \<or> last a = CHR ''/'' then a else a @ ''/'')"

section \<open>Paths and the manifest\<close>

lemma path_join_relative: "take 1 b \<noteq> ''/'' \<Longrightarrow> path_join a b = dir_prefix a @ b"
  by (simp add: path_join_def dir_prefix_def)

lemma path_join_inj:
  "take 1 b \<noteq> ''/'' \<Longrightarrow> take 1 c \<noteq> ''/'' \<Longrightarrow> path_join a b = path_join a c \<longleftrightarrow> b = c"
  by (simp add: path_join_relative)

lemma keys_relative_gen: "list_all (\<lambda>(k, v). take 1 k \<noteq> ''/'') icons_gen"
  by (simp add: icons_gen_def)

lemma keys_distinct_gen: "distinct (map fst icons_gen)"
  by (simp add: icons_gen_def)

lemma icons_same: "icons_ph = icons_gen"
  by (simp add: icons_gen_def icons_ph_def)

lemma loop_same: "icons_loop_ph L d img items w = icons_loop_gen L d img items w"
  by (induction items arbitrary: w) (auto split: sum.splits)

lemma paths_distinct:
  assumes "distinct (map fst items)" "list_all (\<lambda>(k, v). take 1 k \<noteq> ''/'') items"
  shows "distinct (map (\<lambda>(k, v). path_join d k) items)"
proof -
  have "map (\<lambda>(k, v). path_join d k) items = map (\<lambda>k. dir_prefix d @ k) (map fst items)"
    using assms(2) by (induction items) (auto simp: path_join_relative)
  moreover have "inj (\<lambda>k. dir_prefix d @ k)" by (simp add: inj_on_def)
  ultimately show ?thesis using assms(1) by (simp add: distinct_map inj_on_def del: map_map)
qed

lemma loop_untouched:
  assumes "save_contract L" "icons_loop_gen L d img items w = Inr w'"
    "p \<notin> set (map (\<lambda>(k, v). path_join d k) items)"
  shows "files w' p = files w p"
  using assms(2,3)
proof (induction items arbitrary: w)
  case Nil then show ?case by simp
next
  case (Cons kv items)
  obtain k v where kv: "kv = (k, v)" by (cases kv)
  from Cons.prems(1) obtain r fs where
    r: "Image_resize L img (v, v) LANCZOS = Inr r" and
    fs: "Image_save L r (path_join d k) ''PNG'' (files w) = Inr fs" and
    rest: "icons_loop_gen L d img items
             (print_line (''Created '' @ k @ '' ('' @ str v @ ''x'' @ str v @ '')'') (w\<lparr>files := fs\<rparr>)) = Inr w'"
    by (auto simp: kv split: sum.splits)
  from fs assms(1) have "fs = (files w)(path_join d k \<mapsto> r)" by (auto simp: save_contract_def)
  moreover have "files w' p = fs p"
    using Cons.IH[OF rest] Cons.prems(2) by (simp add: print_line_def)
  ultimately show ?case using Cons.prems(2) by (auto simp: kv)
qed

lemma loop_written:
  assumes "save_contract L" "icons_loop_gen L d img items w = Inr w'"
    "distinct (map (\<lambda>(k, v). path_join d k) items)" "(k, v) \<in> set items"
  shows "\<exists>r. Image_resize L img (v, v) LANCZOS = Inr r \<and> files w' (path_join d k) = Some r"
  using assms(2,3,4)
proof (induction items arbitrary: w)
  case Nil then show ?case by simp
next
  case (Cons kv items)
  obtain k0 v0 where kv: "kv = (k0, v0)" by (cases kv)
  from Cons.prems(1) obtain r fs where
    r: "Image_resize L img (v0, v0) LANCZOS = Inr r" and
    fs: "Image_save L r (path_join d k0) ''PNG'' (files w) = Inr fs" and
    rest: "icons_loop_gen L d img items
             (print_line (''Created '' @ k0 @ '' ('' @ str v0 @ ''x'' @ str v0 @ '')'') (w\<lparr>files := fs\<rparr>)) = Inr w'"
    by (auto simp: kv split: sum.splits)
  from fs assms(1) have fs_eq: "fs = (files w)(path_join d k0 \<mapsto> r)" by (auto simp: save_contract_def)
  show ?case
  proof (cases "(k, v) = (k0, v0)")
    case True
    have "path_join d k0 \<notin> set (map (\<lambda>(k, v). path_join d k) items)"
      using Cons.prems(2) by (simp add: kv)
    from loop_untouched[OF assms(1) rest this] have "files w' (path_join d k0) = Some r"
      by (simp add: print_line_def fs_eq)
    with r True show ?thesis by auto
  next
    case False
    with Cons.prems(3) have "(k, v) \<in> set items" by (auto simp: kv)
    moreover have "distinct (map (\<lambda>(k, v). path_join d k) items)" using Cons.prems(2) by simp
    ultimately show ?thesis using Cons.IH[OF rest] by blast
  qed
qed

lemma loop_stdout:
  "icons_loop_gen L d img items w = Inr w' \<Longrightarrow> stdout w' = stdout w @ map created_line items"
  by (induction items arbitrary: w) (auto simp: print_line_def created_line_def split: sum.splits)

lemma loop_append:
  "icons_loop_gen L d img (xs @ ys) w =
     (case icons_loop_gen L d img xs w of Inl x \<Rightarrow> Inl x | Inr w1 \<Rightarrow> icons_loop_gen L d img ys w1)"
  by (induction xs arbitrary: w) (auto split: sum.splits)

section \<open>The runs as a whole\<close>

lemma manifest_paths_distinct: "distinct (map (\<lambda>(k, v). path_join d k) icons_gen)"
  by (rule paths_distinct[OF keys_distinct_gen keys_relative_gen])

lemma gen_success:
  assumes "generate_icons L b w = Inr w'"
  obtains img w2 where
    "Image_open L (source_icon b) (files w) = Inr img"
    "icons_loop_gen L (output_dir_gen b) img icons_gen
       (print_line (''Loading source icon: '' @ source_icon b) w) = Inr w2"
    "w' = print_line (CHR 0x0A # ''All icons generated successfully!'') w2"
  using assms by (auto simp: generate_icons_def Let_def print_line_def split: sum.splits)

lemma gen_written:
  assumes "save_contract L" "generate_icons L b w = Inr w'" "(k, v) \<in> set icons_gen"
  shows "\<exists>img r. Image_open L (source_icon b) (files w) = Inr img \<and>
           Image_resize L img (v, v) LANCZOS = Inr r \<and>
           files w' (path_join (output_dir_gen b) k) = Some r"
proof -
  from assms(2) obtain img w2 where
    o: "Image_open L (source_icon b) (files w) = Inr img" and
    l: "icons_loop_gen L (output_dir_gen b) img icons_gen
          (print_line (''Loading source icon: '' @ source_icon b) w) = Inr w2" and
    w': "w' = print_line (CHR 0x0A # ''All icons generated successfully!'') w2"
    by (rule gen_success)
  from loop_written[OF assms(1) l manifest_paths_distinct assms(3)] obtain r where
    "Image_resize L img (v, v) LANCZOS = Inr r" "files w2 (path_join (output_dir_gen b) k) = Some r"
    by blast
  with o w' show ?thesis by (simp add: print_line_def)
qed

lemma ph_success:
  assumes "create_placeholder_icon L w = Inr w'"
  obtains font img fs w2 where
    "select_font L = Inr font"
    "placeholder_image L font = Inr img"
    "Image_save L img source_path ''PNG'' (files w) = Inr fs"
    "icons_loop_gen L output_dir_ph img icons_gen
       (print_line (''Created source icon: '' @ source_path) (w\<lparr>files := fs\<rparr>)) = Inr w2"
    "w' = print_line (CHR 0x0A # ''All icons generated successfully!'') w2"
  using assms
  by (auto simp: create_placeholder_icon_def placeholder_with_font_def Let_def loop_same icons_same
      split: sum.splits)

lemma ph_written:
  assumes "save_contract L" "create_placeholder_icon L w = Inr w'" "(k, v) \<in> set icons_gen"
  shows "\<exists>font img r. select_font L = Inr font \<and> placeholder_image L font = Inr img \<and>
           Image_resize L img (v, v) LANCZOS = Inr r \<and>
           files w' (path_join output_dir_ph k) = Some r"
proof -
  from assms(2) obtain font img fs w2 where
    f: "select_font L = Inr font" and i: "placeholder_image L font = Inr img" and
    l: "icons_loop_gen L output_dir_ph img icons_gen
          (print_line (''Created source icon: '' @ source_path) (w\<lparr>files := fs\<rparr>)) = Inr w2" and
    w': "w' = print_line (CHR 0x0A # ''All icons generated successfully!'') w2"
    by (rule ph_success)
  from loop_written[OF assms(1) l manifest_paths_distinct assms(3)] w' f i show ?thesis
    by (simp add: print_line_def)
qed

lemma source_path_apart:
  "source_path \<notin> set (map (\<lambda>(k, v). path_join output_dir_ph k) icons_gen)"
  by (simp add: source_path_def path_join_relative icons_gen_def)

lemma ph_source_saved:
  assumes "save_contract L" "create_placeholder_icon L w = Inr w'"
  shows "\<exists>font img. select_font L = Inr font \<and> placeholder_image L font = Inr img \<and>
           files w' source_path = Some img"
proof -
  from assms(2) obtain font img fs w2 where
    f: "select_font L = Inr font" and i: "placeholder_image L font = Inr img" and
    s: "Image_save L img source_path ''PNG'' (files w) = Inr fs" and
    l: "icons_loop_gen L output_dir_ph img icons_gen
          (print_line (''Created source icon: '' @ source_path) (w\<lparr>files := fs\<rparr>)) = Inr w2" and
    w': "w' = print_line (CHR 0x0A # ''All icons generated successfully!'') w2"
    by (rule ph_success)
  from s assms(1) have "fs = (files w)(source_path \<mapsto> img)"
    by (auto simp: save_contract_def)
  with loop_untouched[OF assms(1) l source_path_apart] w' have "files w' source_path = Some img"
    by (simp add: print_line_def)
  with f i show ?thesis by blast
qed

lemma loop_succeeds:
  assumes "\<And>im p fs. \<exists>fs'. Image_save L im p ''PNG'' fs = Inr fs'"
    "list_all (\<lambda>(k, n). \<exists>r. Image_resize L img (n, n) LANCZOS = Inr r) items"
  shows "\<exists>w'. icons_loop_gen L d img items w = Inr w'"
  using assms(2)
proof (induction items arbitrary: w)
  case Nil then show ?case by simp
next
  case (Cons kn items)
  obtain k n where kn: "kn = (k, n)" by (cases kn)
  from Cons.prems obtain r where r: "Image_resize L img (n, n) LANCZOS = Inr r"
    by (auto simp: kn)
  from assms(1) obtain fs where "Image_save L r (path_join d k) ''PNG'' (files w) = Inr fs"
    by blast
  with r Cons.IH Cons.prems show ?case by (simp add: kn)
qed

lemma stub_resize_contract: "resize_contract stub_pil"
  by (auto simp: resize_contract_def stub_pil_def split: if_splits)

lemma stub_save_contract: "save_contract stub_pil"
  by (auto simp: save_contract_def stub_pil_def)

lemma stub_new_contract: "new_contract stub_pil"
  by (simp add: new_contract_def stub_pil_def)

lemma stub_text_contract: "text_contract stub_pil"
  by (simp add: text_contract_def stub_pil_def)

lemma stub_textbbox_contract: "textbbox_contract stub_pil"
  by (simp add: textbbox_contract_def stub_pil_def)

lemma stub_text_ink_contract: "text_ink_contract stub_pil"
  by (simp add: text_ink_contract_def stub_pil_def)

lemma stub_resize_flat_contract: "resize_flat_contract stub_pil"
  unfolding resize_flat_contract_def
proof (intro allI impI, elim conjE)
  fix img :: "(int \<times> int) \<times> rgb" and w h :: int and f r c and x y :: int
  assume r: "Image_resize stub_pil img (w, h) f = Inr r"
    and pos: "0 < fst (Image_size stub_pil img)" "0 < snd (Image_size stub_pil img)"
    and flat: "\<forall>x y. 0 \<le> x \<and> x < fst (Image_size stub_pil img) \<and>
                 0 \<le> y \<and> y < snd (Image_size stub_pil img) \<longrightarrow>
                 Image_getpixel stub_pil img (x, y) = c"
  from flat pos have "Image_getpixel stub_pil img (0, 0) = c" by simp
  then have "snd img = c" by (simp add: stub_pil_def)
  moreover from r have "snd r = snd img" by (auto simp: stub_pil_def split: if_splits)
  ultimately show "Image_getpixel stub_pil r (x, y) = c" by (simp add: stub_pil_def)
qed

lemma stub_select_font: "select_font stub_pil = Inr 6"
  by (simp add: select_font_def stub_pil_def)

lemma stub_placeholder_image:
  "placeholder_image stub_pil font = Inr ((1024, 1024), (0, 122, 255))"
  by (simp add: placeholder_image_def canvas_def size_ph_def stub_pil_def)

lemma stub_resizes: "list_all (\<lambda>(k, n). \<exists>r. Image_resize stub_pil img (n, n) LANCZOS = Inr r) icons_gen"
  by (cases "snd img") (simp add: icons_gen_def stub_pil_def)

lemma stub_gen_runs: "\<exists>w'. generate_icons stub_pil ''/repo'' stub_world = Inr w'"
proof -
  have o: "Image_open stub_pil (source_icon ''/repo'') (files stub_world) = Inr ((1024, 1024), (0, 122, 255))"
    by (simp add: stub_pil_def stub_world_def)
  have "\<exists>w'. icons_loop_gen stub_pil (output_dir_gen ''/repo'') ((1024, 1024), (0, 122, 255)) icons_gen
          (print_line (''Loading source icon: '' @ source_icon ''/repo'') stub_world) = Inr w'"
    by (rule loop_succeeds[OF _ stub_resizes]) (simp add: stub_pil_def)
  with o show ?thesis by (auto simp: generate_icons_def Let_def print_line_def)
qed

lemma stub_ph_runs: "\<exists>w'. create_placeholder_icon stub_pil empty_world = Inr w'"
proof -
  let ?img = "((1024, 1024), (0, 122, 255)) :: (int \<times> int) \<times> rgb"
  obtain fs where s: "Image_save stub_pil ?img source_path ''PNG'' (files empty_world) = Inr fs"
    by (simp add: stub_pil_def)
  have "\<exists>w'. icons_loop_gen stub_pil output_dir_ph ?img icons_gen
          (print_line (''Created source icon: '' @ source_path) (empty_world\<lparr>files := fs\<rparr>)) = Inr w'"
    by (rule loop_succeeds[OF _ stub_resizes]) (simp add: stub_pil_def)
  with s show ?thesis
    by (auto simp: create_placeholder_icon_def placeholder_with_font_def Let_def loop_same icons_same
        stub_select_font stub_placeholder_image)
qed

lemma stub_loop_runs:
  "\<exists>w'. icons_loop_gen stub_pil d img icons_gen w = Inr w'"
  by (rule loop_succeeds[OF _ stub_resizes]) (simp add: stub_pil_def)

section \<open>The manifest\<close>

text \<open>
  Claim C6. In both scripts the manifest has 17 entries, its file names are pairwise
  distinct, and every edge length is positive and at most 1024, the edge length of the
  source image that \<open>create_placeholder_icon.py\<close> synthesizes: no entry asks for an
  upscale.
\<close>

theorem manifest_invariant:
  "length icons_gen = 17 \<and> distinct (map fst icons_gen) \<and>
   list_all (\<lambda>(k, v). 0 < v \<and> v \<le> size_ph) icons_gen \<and>
   length icons_ph = 17 \<and> distinct (map fst icons_ph) \<and>
   list_all (\<lambda>(k, v). 0 < v \<and> v \<le> size_ph) icons_ph"
proof -
  have "length icons_gen = 17" by (simp add: icons_gen_def)
  moreover have "list_all (\<lambda>(k, v). 0 < v \<and> v \<le> size_ph) icons_gen"
    by (simp add: icons_gen_def size_ph_def)
  ultimately show ?thesis using keys_distinct_gen by (simp add: icons_same)
qed

section \<open>An unreadable source\<close>

text \<open>
  Claim C3. When \<open>Image.open\<close> raises on the source icon, \<open>generate_icons.py\<close> ends at
  once with that exception. The only thing it has done is print the loading line: the
  files on disk are exactly those it started with, so no manifest entry was written,
  removed or retried.
\<close>

theorem open_failure_is_fatal:
  assumes "Image_open L (source_icon base_dir) (files w) = Inl e"
  shows "\<exists>w'. generate_icons L base_dir w = Inl (e, w') \<and> files w' = files w \<and>
           stdout w' = stdout w @ [''Loading source icon: '' @ source_icon base_dir]"
  using assms by (simp add: generate_icons_def Let_def print_line_def)

theorem open_failure_is_fatal_witness:
  "Image_open stub_pil (source_icon ''/repo'') (files empty_world) = Inl FileNotFoundError \<and>
   (\<exists>w'. generate_icons stub_pil ''/repo'' empty_world = Inl (FileNotFoundError, w') \<and>
      files w' = files empty_world \<and>
      stdout w' = stdout empty_world @ [''Loading source icon: '' @ source_icon ''/repo''])"
proof -
  have h: "Image_open stub_pil (source_icon ''/repo'') (files empty_world) = Inl FileNotFoundError"
    by (simp add: stub_pil_def empty_world_def)
  from open_failure_is_fatal[OF h] h show ?thesis by blast
qed

section \<open>Every entry is written, square, at its size\<close>

text \<open>
  Claim C1. After a run that returns, of either script, each of the 17 manifest entries
  has its file in the output directory, under the entry's name, and the image stored
  there is as wide and as high as the entry's edge length. Pillow is taken at its word
  that \<open>resize\<close> returns the size asked for and that \<open>save\<close> stores the image under the
  path.
\<close>

theorem every_entry_written:
  assumes "resize_contract L" "save_contract L"
  shows "length icons_gen = 17 \<and> length icons_ph = 17 \<and>
    (generate_icons L base_dir w = Inr w' \<longrightarrow>
       list_all (\<lambda>(filename, n). \<exists>im. files w' (path_join (output_dir_gen base_dir) filename) = Some im \<and>
                   Image_size L im = (n, n)) icons_gen) \<and>
    (create_placeholder_icon L w = Inr w' \<longrightarrow>
       list_all (\<lambda>(filename, n). \<exists>im. files w' (path_join output_dir_ph filename) = Some im \<and>
                   Image_size L im = (n, n)) icons_ph)"
proof -
  have len: "length icons_gen = 17" by (simp add: icons_gen_def)
  have sz: "Image_size L r = (n, n)" if "Image_resize L img (n, n) LANCZOS = Inr r" for img n r
    using that assms(1) by (auto simp: resize_contract_def)
  have g: "list_all (\<lambda>(filename, n). \<exists>im. files w' (path_join (output_dir_gen base_dir) filename) = Some im \<and>
                   Image_size L im = (n, n)) icons_gen"
    if "generate_icons L base_dir w = Inr w'"
    unfolding list_all_iff using gen_written[OF assms(2) that] sz by fastforce
  have p: "list_all (\<lambda>(filename, n). \<exists>im. files w' (path_join output_dir_ph filename) = Some im \<and>
                   Image_size L im = (n, n)) icons_gen"
    if "create_placeholder_icon L w = Inr w'"
    unfolding list_all_iff using ph_written[OF assms(2) that] sz by fastforce
  from len g p show ?thesis by (simp add: icons_same)
qed

theorem every_entry_written_witness:
  "resize_contract stub_pil \<and> save_contract stub_pil \<and>
   (\<exists>w'. generate_icons stub_pil ''/repo'' stub_world = Inr w' \<and>
      list_all (\<lambda>(filename, n). \<exists>im. files w' (path_join (output_dir_gen ''/repo'') filename) = Some im \<and>
                   Image_size stub_pil im = (n, n)) icons_gen) \<and>
   (\<exists>w'. create_placeholder_icon stub_pil empty_world = Inr w' \<and>
      list_all (\<lambda>(filename, n). \<exists>im. files w' (path_join output_dir_ph filename) = Some im \<and>
                   Image_size stub_pil im = (n, n)) icons_ph)"
proof -
  obtain w1 where 1: "generate_icons stub_pil ''/repo'' stub_world = Inr w1"
    using stub_gen_runs by blast
  obtain w2 where 2: "create_placeholder_icon stub_pil empty_world = Inr w2"
    using stub_ph_runs by blast
  from every_entry_written[OF stub_resize_contract stub_save_contract, of "''/repo''" stub_world w1] 1
  have a: "list_all (\<lambda>(filename, n). \<exists>im. files w1 (path_join (output_dir_gen ''/repo'') filename) = Some im \<and>
                   Image_size stub_pil im = (n, n)) icons_gen" by blast
  from every_entry_written[OF stub_resize_contract stub_save_contract, of _ empty_world w2] 2
  have b: "list_all (\<lambda>(filename, n). \<exists>im. files w2 (path_join output_dir_ph filename) = Some im \<and>
                   Image_size stub_pil im = (n, n)) icons_ph" by blast
  from 1 2 a b stub_resize_contract stub_save_contract show ?thesis by blast
qed

section \<open>The two manifests and the two loops\<close>

text \<open>
  Claim C7. The manifest of \<open>generate_icons.py\<close> and that of
  \<open>create_placeholder_icon.py\<close> are the same list: same file names, same edge lengths,
  same order. The two resize loops are the same function of directory, source image,
  items and starting state. Run from the same in-memory image, each into its own output
  directory and from any starting state, they leave under every manifest name a file
  with the same raster, and print the same progress lines.
\<close>

theorem manifests_agree:
  "icons_gen = icons_ph \<and>
   icons_loop_gen L d img items w = icons_loop_ph L d img items w \<and>
   (save_contract L \<and>
    icons_loop_gen L (output_dir_gen base_dir) img icons_gen w1 = Inr w1' \<and>
    icons_loop_ph L output_dir_ph img icons_ph w2 = Inr w2' \<longrightarrow>
      list_all (\<lambda>(filename, n).
          files w1' (path_join (output_dir_gen base_dir) filename) =
            files w2' (path_join output_dir_ph filename) \<and>
          files w2' (path_join output_dir_ph filename) \<noteq> None) icons_gen \<and>
      drop (length (stdout w1)) (stdout w1') = drop (length (stdout w2)) (stdout w2'))"
proof -
  have files_eq: "list_all (\<lambda>(filename, n).
          files w1' (path_join (output_dir_gen base_dir) filename) =
            files w2' (path_join output_dir_ph filename) \<and>
          files w2' (path_join output_dir_ph filename) \<noteq> None) icons_gen"
    if c: "save_contract L"
      and 1: "icons_loop_gen L (output_dir_gen base_dir) img icons_gen w1 = Inr w1'"
      and 2: "icons_loop_gen L output_dir_ph img icons_gen w2 = Inr w2'"
    unfolding list_all_iff
  proof (clarify, rule conjI)
    fix k n assume kn: "(k, n) \<in> set icons_gen"
    from loop_written[OF c 1 manifest_paths_distinct kn] loop_written[OF c 2 manifest_paths_distinct kn]
    show "files w1' (path_join (output_dir_gen base_dir) k) = files w2' (path_join output_dir_ph k)"
      by auto
    from loop_written[OF c 2 manifest_paths_distinct kn]
    show "files w2' (path_join output_dir_ph k) \<noteq> None" by auto
  qed
  have lines_eq: "drop (length (stdout w1)) (stdout w1') = drop (length (stdout w2)) (stdout w2')"
    if "icons_loop_gen L (output_dir_gen base_dir) img icons_gen w1 = Inr w1'"
      and "icons_loop_gen L output_dir_ph img icons_gen w2 = Inr w2'"
    using that[THEN loop_stdout] by simp
  from files_eq lines_eq show ?thesis by (simp add: icons_same loop_same)
qed

theorem manifests_agree_witness:
  "save_contract stub_pil \<and>
   (\<exists>w1' w2'.
      icons_loop_gen stub_pil (output_dir_gen ''/repo'') ((1024, 1024), (0, 122, 255)) icons_gen
        stub_world = Inr w1' \<and>
      icons_loop_ph stub_pil output_dir_ph ((1024, 1024), (0, 122, 255)) icons_ph
        empty_world = Inr w2' \<and>
      list_all (\<lambda>(filename, n).
          files w1' (path_join (output_dir_gen ''/repo'') filename) =
            files w2' (path_join output_dir_ph filename) \<and>
          files w2' (path_join output_dir_ph filename) \<noteq> None) icons_gen \<and>
      drop (length (stdout stub_world)) (stdout w1') =
        drop (length (stdout empty_world)) (stdout w2'))"
proof -
  obtain w1' where 1: "icons_loop_gen stub_pil (output_dir_gen ''/repo'') ((1024, 1024), (0, 122, 255))
      icons_gen stub_world = Inr w1'"
    using stub_loop_runs by blast
  obtain w2' where "icons_loop_gen stub_pil output_dir_ph ((1024, 1024), (0, 122, 255))
      icons_gen empty_world = Inr w2'"
    using stub_loop_runs by blast
  then have 2: "icons_loop_ph stub_pil output_dir_ph ((1024, 1024), (0, 122, 255))
      icons_ph empty_world = Inr w2'"
    by (simp add: loop_same icons_same)
  from manifests_agree[where L = stub_pil and base_dir = "''/repo''"
      and img = "((1024, 1024), (0, 122, 255))" and ?w1.0 = stub_world and w1' = w1'
      and ?w2.0 = empty_world and w2' = w2'] stub_save_contract 1 2
  show ?thesis by blast
qed

section \<open>Entries of equal size\<close>

text \<open>
  Claim C10. The edge length 40 occurs three times in the manifest, and 58, 80 and 120
  twice each. After a loop that returns, in either script, two entries with the same edge
  length have files holding the same raster.
\<close>

theorem shared_sizes_shared_rasters:
  "length (filter (\<lambda>(filename, n). n = 40) icons_gen) = 3 \<and>
   length (filter (\<lambda>(filename, n). n = 58) icons_gen) = 2 \<and>
   length (filter (\<lambda>(filename, n). n = 80) icons_gen) = 2 \<and>
   length (filter (\<lambda>(filename, n). n = 120) icons_gen) = 2 \<and>
   icons_ph = icons_gen \<and>
   (save_contract L \<and> icons_loop_gen L d img icons_gen w = Inr w' \<and>
    (k1, n) \<in> set icons_gen \<and> (k2, n) \<in> set icons_gen \<longrightarrow>
      files w' (path_join d k1) = files w' (path_join d k2) \<and>
      files w' (path_join d k1) \<noteq> None) \<and>
   (save_contract L \<and> icons_loop_ph L d img icons_ph w = Inr w' \<and>
    (k1, n) \<in> set icons_ph \<and> (k2, n) \<in> set icons_ph \<longrightarrow>
      files w' (path_join d k1) = files w' (path_join d k2) \<and>
      files w' (path_join d k1) \<noteq> None)"
proof -
  have counts: "length (filter (\<lambda>(filename, n). n = 40) icons_gen) = 3"
    "length (filter (\<lambda>(filename, n). n = 58) icons_gen) = 2"
    "length (filter (\<lambda>(filename, n). n = 80) icons_gen) = 2"
    "length (filter (\<lambda>(filename, n). n = 120) icons_gen) = 2"
    by (simp_all add: icons_gen_def)
  have same: "files w' (path_join d k1) = files w' (path_join d k2) \<and>
      files w' (path_join d k1) \<noteq> None"
    if c: "save_contract L" and l: "icons_loop_gen L d img icons_gen w = Inr w'"
      and 1: "(k1, n) \<in> set icons_gen" and 2: "(k2, n) \<in> set icons_gen"
    using loop_written[OF c l manifest_paths_distinct 1]
      loop_written[OF c l manifest_paths_distinct 2] by auto
  from counts same show ?thesis unfolding icons_same loop_same by blast
qed

theorem shared_sizes_shared_rasters_witness:
  "save_contract stub_pil \<and>
   (''icon_40x40@3x.png'', 120) \<in> set icons_gen \<and> (''icon_60x60@2x.png'', 120) \<in> set icons_gen \<and>
   (\<exists>w'. icons_loop_gen stub_pil output_dir_ph ((1024, 1024), (0, 122, 255)) icons_gen empty_world
            = Inr w' \<and>
      files w' (path_join output_dir_ph ''icon_40x40@3x.png'') =
        files w' (path_join output_dir_ph ''icon_60x60@2x.png'') \<and>
      files w' (path_join output_dir_ph ''icon_40x40@3x.png'') \<noteq> None) \<and>
   (\<exists>w'. icons_loop_ph stub_pil output_dir_ph ((1024, 1024), (0, 122, 255)) icons_ph empty_world
            = Inr w' \<and>
      files w' (path_join output_dir_ph ''icon_40x40@3x.png'') =
        files w' (path_join output_dir_ph ''icon_60x60@2x.png'') \<and>
      files w' (path_join output_dir_ph ''icon_40x40@3x.png'') \<noteq> None)"
proof -
  have m1: "(''icon_40x40@3x.png'', 120) \<in> set icons_gen"
    and m2: "(''icon_60x60@2x.png'', 120) \<in> set icons_gen"
    by (simp_all add: icons_gen_def)
  obtain w' where 1: "icons_loop_gen stub_pil output_dir_ph ((1024, 1024), (0, 122, 255))
      icons_gen empty_world = Inr w'"
    using stub_loop_runs by blast
  then have 2: "icons_loop_ph stub_pil output_dir_ph ((1024, 1024), (0, 122, 255))
      icons_ph empty_world = Inr w'"
    by (simp add: loop_same icons_same)
  from shared_sizes_shared_rasters[of stub_pil output_dir_ph "((1024, 1024), (0, 122, 255))"
      empty_world w' "''icon_40x40@3x.png''" 120 "''icon_60x60@2x.png''"]
    stub_save_contract 1 m1 m2
  have "files w' (path_join output_dir_ph ''icon_40x40@3x.png'') =
        files w' (path_join output_dir_ph ''icon_60x60@2x.png'') \<and>
      files w' (path_join output_dir_ph ''icon_40x40@3x.png'') \<noteq> None"
    by blast
  with stub_save_contract 1 2 m1 m2 show ?thesis by blast
qed

section \<open>The synthesized source image\<close>

text \<open>
  Claim C9. The canvas \<open>create_placeholder_icon.py\<close> starts from is 1024 pixels wide and
  1024 high, and every pixel of it has the one background colour \<open>#007AFF\<close>; the image
  with the label drawn on it, which the script saves and resizes, is still 1024 by 1024,
  and so is the file \<open>icon_1024x1024.png\<close> a returning run leaves. What \<open>Image.new\<close> and
  \<open>ImageDraw.text\<close> return is Pillow's part: the script's part is to ask for the size
  \<open>(size, size)\<close> with \<open>size = 1024\<close> and one colour.
\<close>

theorem placeholder_canvas:
  assumes "new_contract L" "text_contract L"
  shows "Image_size L (canvas L) = (1024, 1024) \<and>
    (\<forall>x y. 0 \<le> x \<and> x < 1024 \<and> 0 \<le> y \<and> y < 1024 \<longrightarrow>
       Image_getpixel L (canvas L) (x, y) = ImageColor_getrgb L ''#007AFF'') \<and>
    (placeholder_image L font = Inr im \<longrightarrow> Image_size L im = (1024, 1024)) \<and>
    (save_contract L \<and> create_placeholder_icon L w = Inr w' \<longrightarrow>
       (\<exists>saved. files w' source_path = Some saved \<and> Image_size L saved = (1024, 1024)))"
proof -
  from assms(1) have s: "Image_size L (canvas L) = (1024, 1024)"
    and p: "\<forall>x y. 0 \<le> x \<and> x < 1024 \<and> 0 \<le> y \<and> y < 1024 \<longrightarrow>
       Image_getpixel L (canvas L) (x, y) = ImageColor_getrgb L ''#007AFF''"
    unfolding new_contract_def canvas_def size_ph_def by blast+
  have i: "Image_size L im' = (1024, 1024)" if "placeholder_image L font' = Inr im'" for font' im'
  proof -
    from that obtain bbox where
      "ImageDraw_text L (canvas L) (text_origin bbox) text_ph ''white'' font' = Inr im'"
      by (auto simp: placeholder_image_def split: sum.splits)
    with assms(2) have "Image_size L im' = Image_size L (canvas L)"
      unfolding text_contract_def by blast
    with s show ?thesis by simp
  qed
  have r: "\<exists>saved. files w' source_path = Some saved \<and> Image_size L saved = (1024, 1024)"
    if "save_contract L" "create_placeholder_icon L w = Inr w'"
    using ph_source_saved[OF that] i by blast
  from s p i r show ?thesis by blast
qed

theorem placeholder_canvas_witness:
  "new_contract stub_pil \<and> text_contract stub_pil \<and>
   Image_size stub_pil (canvas stub_pil) = (1024, 1024) \<and>
   (0::int) \<le> 512 \<and> (512::int) < 1024 \<and> (0::int) \<le> 300 \<and> (300::int) < 1024 \<and>
   Image_getpixel stub_pil (canvas stub_pil) (512, 300) = ImageColor_getrgb stub_pil ''#007AFF'' \<and>
   Image_getpixel stub_pil (canvas stub_pil) (512, 300) = (0, 122, 255) \<and>
   placeholder_image stub_pil 6 = Inr ((1024, 1024), (0, 122, 255)) \<and>
   Image_size stub_pil ((1024, 1024), (0, 122, 255)) = (1024, 1024) \<and>
   save_contract stub_pil \<and>
   (\<exists>w' saved. create_placeholder_icon stub_pil empty_world = Inr w' \<and>
      files w' source_path = Some saved \<and> Image_size stub_pil saved = (1024, 1024))"
proof -
  have c: "ImageColor_getrgb stub_pil ''#007AFF'' = (0, 122, 255)"
    by (simp add: stub_pil_def)
  obtain w' where w': "create_placeholder_icon stub_pil empty_world = Inr w'"
    using stub_ph_runs by blast
  note T = placeholder_canvas[OF stub_new_contract stub_text_contract,
      where font = 6 and im = "((1024, 1024), (0, 122, 255))" and w = empty_world and w' = w']
  from T have a: "Image_size stub_pil (canvas stub_pil) = (1024, 1024)"
    and b: "Image_getpixel stub_pil (canvas stub_pil) (512, 300) = ImageColor_getrgb stub_pil ''#007AFF''"
    by simp_all
  from T stub_placeholder_image
  have d: "Image_size stub_pil ((1024, 1024), (0, 122, 255)) = (1024, 1024)"
    by blast
  from T stub_save_contract w'
  have e: "\<exists>saved. files w' source_path = Some saved \<and> Image_size stub_pil saved = (1024, 1024)"
    by blast
  from a b c d e w' stub_new_contract stub_text_contract stub_save_contract stub_placeholder_image
  show ?thesis by simp
qed

section \<open>The resize step is repeatable\<close>

lemma loop_st_pure:
  "icons_loop_st (\<lambda>s img sz f. (Image_resize L img sz f, s)) L d img items s w
     = (icons_loop_gen L d img items w, s)"
  by (induction items arbitrary: w) (auto split: sum.splits)

lemma loop_st_as_pure:
  assumes "resize_deterministic rsz"
  shows "fst (icons_loop_st rsz L d img items s w) =
     icons_loop_gen (L\<lparr>Image_resize := \<lambda>img sz f. fst (rsz s0 img sz f)\<rparr>) d img items w"
proof (induction items arbitrary: s w)
  case Nil then show ?case by simp
next
  case (Cons kn items)
  obtain k n where kn: "kn = (k, n)" by (cases kn)
  obtain res s' where r: "rsz s img (n, n) LANCZOS = (res, s')"
    by (cases "rsz s img (n, n) LANCZOS")
  from assms have "fst (rsz s0 img (n, n) LANCZOS) = fst (rsz s img (n, n) LANCZOS)"
    unfolding resize_deterministic_def by blast
  with r have r0: "fst (rsz s0 img (n, n) LANCZOS) = res" by simp
  show ?case
    by (cases res) (auto simp: kn r r0 Cons.IH split: sum.splits)
qed

lemma save_contract_resize_irrelevant:
  "save_contract (L\<lparr>Image_resize := g\<rparr>) = save_contract L"
  by (simp add: save_contract_def)

text \<open>
  Claim C2. The resize step is repeatable. Let \<open>img.resize\<close> be deterministic in the sense
  of the spec: whatever state the library is in, the same image, size and filter give the
  same result. Then two runs of the resize loop on the same source image, from any two
  library states, any two states of the disk and into any two directories, store under
  every manifest name the same raster, namely the one \<open>resize\<close> gives for that source and
  that entry's edge length. The loop adds nothing of its own: each call gets the
  source image itself and the entry's size. With a resize that ignores the state, the
  loop is the one embedded above.
\<close>
theorem resize_step_deterministic:
  assumes "resize_deterministic rsz" "save_contract L"
    and "fst (icons_loop_st rsz L d1 img icons_gen s1 w1) = Inr w1'"
    and "fst (icons_loop_st rsz L d2 img icons_gen s2 w2) = Inr w2'"
  shows "list_all (\<lambda>(filename, n).
            \<exists>r. fst (rsz s1 img (n, n) LANCZOS) = Inr r \<and>
                fst (rsz s2 img (n, n) LANCZOS) = Inr r \<and>
                files w1' (path_join d1 filename) = Some r \<and>
                files w2' (path_join d2 filename) = Some r) icons_gen \<and>
         icons_loop_st (\<lambda>s img sz f. (Image_resize L img sz f, s)) L d img items s w
           = (icons_loop_gen L d img items w, s)"
proof -
  let ?L = "L\<lparr>Image_resize := \<lambda>img sz f. fst (rsz s1 img sz f)\<rparr>"
  have c: "save_contract ?L"
    using assms(2) by (simp only: save_contract_resize_irrelevant)
  from assms(3) have 1: "icons_loop_gen ?L d1 img icons_gen w1 = Inr w1'"
    by (simp only: loop_st_as_pure[OF assms(1), where ?s0.0 = s1])
  from assms(4) have 2: "icons_loop_gen ?L d2 img icons_gen w2 = Inr w2'"
    by (simp only: loop_st_as_pure[OF assms(1), where ?s0.0 = s1])
  have same: "fst (rsz s2 img sz f) = fst (rsz s1 img sz f)" for sz f
    using assms(1) unfolding resize_deterministic_def by blast
  have "list_all (\<lambda>(filename, n).
            \<exists>r. fst (rsz s1 img (n, n) LANCZOS) = Inr r \<and>
                fst (rsz s2 img (n, n) LANCZOS) = Inr r \<and>
                files w1' (path_join d1 filename) = Some r \<and>
                files w2' (path_join d2 filename) = Some r) icons_gen"
    unfolding list_all_iff
  proof clarify
    fix k n assume kn: "(k, n) \<in> set icons_gen"
    from loop_written[OF c 1 manifest_paths_distinct kn]
      loop_written[OF c 2 manifest_paths_distinct kn]
    show "\<exists>r. fst (rsz s1 img (n, n) LANCZOS) = Inr r \<and>
                fst (rsz s2 img (n, n) LANCZOS) = Inr r \<and>
                files w1' (path_join d1 k) = Some r \<and>
                files w2' (path_join d2 k) = Some r"
      by (auto simp: same)
  qed
  then show ?thesis by (simp only: loop_st_pure simp_thms)
qed

lemma stub_counting_deterministic: "resize_deterministic stub_counting"
  by (simp add: resize_deterministic_def stub_counting_def split_beta)

lemma stub_counting_runs:
  "\<exists>w'. fst (icons_loop_st stub_counting stub_pil d img icons_gen s w) = Inr w'"
proof -
  let ?L = "stub_pil\<lparr>Image_resize := \<lambda>img sz f. fst (stub_counting 0 img sz f)\<rparr>"
  have "list_all (\<lambda>(k, n). \<exists>r. Image_resize ?L img (n, n) LANCZOS = Inr r) icons_gen"
    by (cases "snd img") (simp add: icons_gen_def stub_counting_def)
  then have "\<exists>w'. icons_loop_gen ?L d img icons_gen w = Inr w'"
    by (rule loop_succeeds[rotated]) (simp add: stub_pil_def)
  then show ?thesis
    by (simp only: loop_st_as_pure[OF stub_counting_deterministic, where ?s0.0 = 0])
qed

theorem resize_step_deterministic_witness:
  "resize_deterministic stub_counting \<and> save_contract stub_pil \<and>
   (\<exists>w1' w2'.
      fst (icons_loop_st stub_counting stub_pil (output_dir_gen ''/repo'')
             ((1024, 1024), (0, 122, 255)) icons_gen 0 stub_world) = Inr w1' \<and>
      fst (icons_loop_st stub_counting stub_pil (output_dir_gen ''/repo'')
             ((1024, 1024), (0, 122, 255)) icons_gen 17 w1') = Inr w2' \<and>
      list_all (\<lambda>(filename, n).
            \<exists>r. fst (stub_counting 0 ((1024, 1024), (0, 122, 255)) (n, n) LANCZOS) = Inr r \<and>
                fst (stub_counting 17 ((1024, 1024), (0, 122, 255)) (n, n) LANCZOS) = Inr r \<and>
                files w1' (path_join (output_dir_gen ''/repo'') filename) = Some r \<and>
                files w2' (path_join (output_dir_gen ''/repo'') filename) = Some r) icons_gen)"
proof -
  obtain w1' where 1: "fst (icons_loop_st stub_counting stub_pil (output_dir_gen ''/repo'')
             ((1024, 1024), (0, 122, 255)) icons_gen 0 stub_world) = Inr w1'"
    using stub_counting_runs by blast
  obtain w2' where 2: "fst (icons_loop_st stub_counting stub_pil (output_dir_gen ''/repo'')
             ((1024, 1024), (0, 122, 255)) icons_gen 17 w1') = Inr w2'"
    using stub_counting_runs by blast
  note T = resize_step_deterministic[OF stub_counting_deterministic stub_save_contract 1 2,
      THEN conjunct1]
  from T 1 2 stub_counting_deterministic stub_save_contract show ?thesis by blast
qed

text \<open>
  The hypothesis is needed: with a resize whose result depends on the state, the same
  loop on the same source leaves different files.
\<close>

lemma resize_state_matters:
  "\<not> resize_deterministic stub_tinting \<and>
   fst (icons_loop_st stub_tinting stub_pil output_dir_ph ((1024, 1024), (0, 122, 255))
          [(''icon_20x20@2x.png'', 40)] 0 empty_world)
   \<noteq> fst (icons_loop_st stub_tinting stub_pil output_dir_ph ((1024, 1024), (0, 122, 255))
          [(''icon_20x20@2x.png'', 40)] 1 empty_world)"
proof
  have "fst (stub_tinting 0 ((1024, 1024), (0, 122, 255)) (40, 40) LANCZOS)
      \<noteq> fst (stub_tinting 1 ((1024, 1024), (0, 122, 255)) (40, 40) LANCZOS)"
    by (simp add: stub_tinting_def)
  then show "\<not> resize_deterministic stub_tinting"
    unfolding resize_deterministic_def by blast
  show "fst (icons_loop_st stub_tinting stub_pil output_dir_ph ((1024, 1024), (0, 122, 255))
          [(''icon_20x20@2x.png'', 40)] 0 empty_world)
   \<noteq> fst (icons_loop_st stub_tinting stub_pil output_dir_ph ((1024, 1024), (0, 122, 255))
          [(''icon_20x20@2x.png'', 40)] 1 empty_world)"
    by (simp add: stub_tinting_def stub_pil_def print_line_def empty_world_def fun_eq_iff)
qed

section \<open>A source of one colour\<close>

lemma sum_list_const:
  "(\<And>p. p \<in> set ps \<Longrightarrow> f p = (a::int)) \<Longrightarrow> sum_list (map f ps) = int (length ps) * a"
  by (induction ps) (simp_all add: algebra_simps)

lemma pixels_flat:
  assumes "Image_size L im = (w, h)"
    and "\<forall>x y. 0 \<le> x \<and> x < w \<and> 0 \<le> y \<and> y < h \<longrightarrow> Image_getpixel L im (x, y) = c"
    and "p \<in> set (pixels L im)"
  shows "p = c"
proof -
  from assms(3) obtain x y where "x < nat w" "y < nat h"
    and p: "p = Image_getpixel L im (int x, int y)"
    by (auto simp: pixels_def assms(1))
  then have "0 \<le> int x \<and> int x < w \<and> 0 \<le> int y \<and> int y < h" by linarith
  with assms(2) show ?thesis unfolding p by blast
qed

lemma pixels_nonempty:
  assumes "Image_size L im = (w, h)" "0 < w" "0 < h"
  shows "pixels L im \<noteq> []"
proof -
  from assms(2,3) have "[0..<nat w] \<noteq> []" "[0..<nat h] \<noteq> []" by simp_all
  then obtain x xs y ys where "[0..<nat w] = x # xs" "[0..<nat h] = y # ys"
    by (meson list.exhaust)
  then show ?thesis by (simp add: pixels_def assms(1))
qed

lemma average_flat:
  assumes "Image_size L im = (w, h)" "0 < w" "0 < h"
    and "\<forall>x y. 0 \<le> x \<and> x < w \<and> 0 \<le> y \<and> y < h \<longrightarrow> Image_getpixel L im (x, y) = c"
  shows "average_colour L im = c"
proof -
  obtain cr cg cb where c: "c = (cr, cg, cb)" by (cases c)
  have flat: "p = c" if "p \<in> set (pixels L im)" for p
    using pixels_flat[OF assms(1,4) that] .
  have n: "int (length (pixels L im)) \<noteq> 0"
    using pixels_nonempty[OF assms(1-3)] by simp
  have "sum_list (map fst (pixels L im)) = int (length (pixels L im)) * cr"
    by (rule sum_list_const) (auto dest: flat simp: c)
  moreover have "sum_list (map (fst \<circ> snd) (pixels L im)) = int (length (pixels L im)) * cg"
    by (rule sum_list_const) (auto dest: flat simp: c)
  moreover have "sum_list (map (snd \<circ> snd) (pixels L im)) = int (length (pixels L im)) * cb"
    by (rule sum_list_const) (auto dest: flat simp: c)
  ultimately show ?thesis using n by (simp add: average_colour_def Let_def c)
qed

text \<open>
  Claim C8. Resizing a source of one colour keeps the colour. Let the source icon that
  \<open>generate_icons.py\<close> opens be 1024 by 1024 with every pixel of the colour \<open>c\<close>. After a
  run that returns, the file written for \<open>icon_60x60@3x.png\<close> is 180 by 180, every pixel
  of it has the colour \<open>c\<close>, and so its average colour is \<open>c\<close>, with no rounding error at
  all. That a resize of a flat image is flat in the same colour is Pillow's part, taken
  from the spec; the script's part is to resize the source itself to \<open>(180, 180)\<close> and to
  save the result under that name.
\<close>

theorem flat_colour_preserved:
  assumes "resize_contract L" "save_contract L" "resize_flat_contract L"
    and "Image_open L (source_icon base_dir) (files w) = Inr img"
    and "Image_size L img = (1024, 1024)"
    and "\<forall>x y. 0 \<le> x \<and> x < 1024 \<and> 0 \<le> y \<and> y < 1024 \<longrightarrow> Image_getpixel L img (x, y) = c"
    and "generate_icons L base_dir w = Inr w'"
  shows "(''icon_60x60@3x.png'', 180) \<in> set icons_gen \<and>
    (\<exists>im. files w' (path_join (output_dir_gen base_dir) ''icon_60x60@3x.png'') = Some im \<and>
       Image_size L im = (180, 180) \<and>
       (\<forall>x y. 0 \<le> x \<and> x < 180 \<and> 0 \<le> y \<and> y < 180 \<longrightarrow> Image_getpixel L im (x, y) = c) \<and>
       average_colour L im = c)"
proof -
  have m: "(''icon_60x60@3x.png'', 180) \<in> set icons_gen"
    by (simp add: icons_gen_def)
  from gen_written[OF assms(2,7) m] assms(4) obtain im where
    r: "Image_resize L img (180, 180) LANCZOS = Inr im" and
    f: "files w' (path_join (output_dir_gen base_dir) ''icon_60x60@3x.png'') = Some im"
    by auto
  from assms(1) r have sz: "Image_size L im = (180, 180)"
    unfolding resize_contract_def by blast
  from assms(3)
  have "Image_resize L img (180, 180) LANCZOS = Inr im \<and>
        0 < fst (Image_size L img) \<and> 0 < snd (Image_size L img) \<and>
        (\<forall>x y. 0 \<le> x \<and> x < fst (Image_size L img) \<and> 0 \<le> y \<and> y < snd (Image_size L img) \<longrightarrow>
           Image_getpixel L img (x, y) = c) \<longrightarrow>
        (\<forall>x y. 0 \<le> x \<and> x < 180 \<and> 0 \<le> y \<and> y < 180 \<longrightarrow> Image_getpixel L im (x, y) = c)"
    unfolding resize_flat_contract_def by (rule allE, elim allE) assumption
  with r assms(6)
  have flat: "\<forall>x y. 0 \<le> x \<and> x < 180 \<and> 0 \<le> y \<and> y < 180 \<longrightarrow> Image_getpixel L im (x, y) = c"
    by (simp add: assms(5))
  from average_flat[OF sz _ _ flat] have "average_colour L im = c" by simp
  with m f sz flat show ?thesis by blast
qed

theorem flat_colour_preserved_witness:
  "resize_contract stub_pil \<and> save_contract stub_pil \<and> resize_flat_contract stub_pil \<and>
   Image_open stub_pil (source_icon ''/repo'') (files stub_world) = Inr ((1024, 1024), (0, 122, 255)) \<and>
   Image_size stub_pil ((1024, 1024), (0, 122, 255)) = (1024, 1024) \<and>
   Image_getpixel stub_pil ((1024, 1024), (0, 122, 255)) = (\<lambda>xy. (0, 122, 255)) \<and>
   (\<exists>w' im. generate_icons stub_pil ''/repo'' stub_world = Inr w' \<and>
      files w' (path_join (output_dir_gen ''/repo'') ''icon_60x60@3x.png'') = Some im \<and>
      Image_size stub_pil im = (180, 180) \<and>
      Image_getpixel stub_pil im (90, 90) = (0, 122, 255) \<and>
      average_colour stub_pil im = (0, 122, 255))"
proof -
  let ?src = "((1024, 1024), (0, 122, 255)) :: (int \<times> int) \<times> rgb"
  have o: "Image_open stub_pil (source_icon ''/repo'') (files stub_world) = Inr ?src"
    by (simp add: stub_pil_def stub_world_def)
  have sz: "Image_size stub_pil ?src = (1024, 1024)"
    by (simp add: stub_pil_def)
  have px: "Image_getpixel stub_pil ?src = (\<lambda>xy. (0, 122, 255))"
    by (simp add: stub_pil_def)
  then have flat: "\<forall>x y. 0 \<le> x \<and> x < 1024 \<and> 0 \<le> y \<and> y < 1024 \<longrightarrow>
      Image_getpixel stub_pil ?src (x, y) = (0, 122, 255)"
    by simp
  obtain w' where w': "generate_icons stub_pil ''/repo'' stub_world = Inr w'"
    using stub_gen_runs by blast
  from flat_colour_preserved[OF stub_resize_contract stub_save_contract
      stub_resize_flat_contract o sz flat w']
  obtain im where
    "files w' (path_join (output_dir_gen ''/repo'') ''icon_60x60@3x.png'') = Some im"
    "Image_size stub_pil im = (180, 180)"
    "\<forall>x y. 0 \<le> x \<and> x < 180 \<and> 0 \<le> y \<and> y < 180 \<longrightarrow> Image_getpixel stub_pil im (x, y) = (0, 122, 255)"
    "average_colour stub_pil im = (0, 122, 255)"
    by blast
  moreover from this(3) have "Image_getpixel stub_pil im (90, 90) = (0, 122, 255)"
    by simp
  ultimately show ?thesis
    using o sz px w' stub_resize_contract stub_save_contract stub_resize_flat_contract
    by blast
qed

section \<open>The label is centred\<close>

text \<open>
  Claim C5. The image \<open>create_placeholder_icon.py\<close> makes is the canvas with the label
  \<open>MC\<close> drawn in white at the position lines 22 to 27 compute from the label's measured
  bounding box, and it is the image a returning run leaves in \<open>icon_1024x1024.png\<close>.
  Drawn there, the label has a bounding box centred on the 1024 by 1024 canvas up to
  the rounding of the floor division: the sum of its left and right edges, which is
  twice its horizontal centre, differs from 1024, twice the canvas centre, by at most
  1, and so do its top and bottom edges; the centres are within half a pixel of each
  other, in exact integer arithmetic. The left margin is \<open>(1024 - text_width) // 2\<close> and
  the top margin \<open>(1024 - text_height) // 2\<close>. Outside that box every pixel is as on the
  blank canvas. Pillow is taken at its word that the box of a label drawn at \<open>(x, y)\<close> is
  its box at the origin moved by \<open>(x, y)\<close>, and that \<open>text\<close> paints inside the box.
\<close>

theorem label_centred:
  assumes "textbbox_contract L" "text_ink_contract L"
  shows "(placeholder_image L font = Inr im \<longrightarrow>
      (\<exists>bbox l tp r b.
         ImageDraw_textbbox L (canvas L) (0, 0) text_ph font = Inr bbox \<and>
         ImageDraw_text L (canvas L) (text_origin bbox) text_ph ''white'' font = Inr im \<and>
         ImageDraw_textbbox L (canvas L) (text_origin bbox) text_ph font = Inr (l, tp, r, b) \<and>
         \<bar>l + r - size_ph\<bar> \<le> 1 \<and> \<bar>tp + b - size_ph\<bar> \<le> 1 \<and>
         l = (size_ph - (r - l)) div 2 \<and> tp = (size_ph - (b - tp)) div 2 \<and> size_ph = 1024 \<and>
         (\<forall>px py. \<not> (l \<le> px \<and> px < r \<and> tp \<le> py \<and> py < b) \<longrightarrow>
            Image_getpixel L im (px, py) = Image_getpixel L (canvas L) (px, py)))) \<and>
    (save_contract L \<and> create_placeholder_icon L w = Inr w' \<longrightarrow>
      (\<exists>font im. select_font L = Inr font \<and> placeholder_image L font = Inr im \<and>
         files w' source_path = Some im))"
proof (intro conjI impI)
  assume pi: "placeholder_image L font = Inr im"
  then obtain bbox where
    m: "ImageDraw_textbbox L (canvas L) (0, 0) text_ph font = Inr bbox" and
    d: "ImageDraw_text L (canvas L) (text_origin bbox) text_ph ''white'' font = Inr im"
    by (auto simp: placeholder_image_def split: sum.splits)
  obtain b0 b1 b2 b3 where bbox: "bbox = (b0, b1, b2, b3)" by (cases bbox) auto
  define x where "x = (size_ph - (b2 - b0)) div 2 - b0"
  define y where "y = (size_ph - (b3 - b1)) div 2 - b1"
  define l where "l = b0 + x"
  define tp where "tp = b1 + y"
  define r where "r = b2 + x"
  define b where "b = b3 + y"
  have xy: "text_origin bbox = (x, y)"
    by (simp add: text_origin_def bbox x_def y_def Let_def)
  from assms(1) m[unfolded bbox]
  have "ImageDraw_textbbox L (canvas L) (x, y) text_ph font = Inr (b0 + x, b1 + y, b2 + x, b3 + y)"
    unfolding textbbox_contract_def by blast
  then have placed:
    "ImageDraw_textbbox L (canvas L) (text_origin bbox) text_ph font = Inr (l, tp, r, b)"
    by (simp only: xy l_def tp_def r_def b_def)
  have h: "\<bar>l + r - size_ph\<bar> \<le> 1" "l = (size_ph - (r - l)) div 2"
    unfolding l_def r_def x_def by linarith+
  have v: "\<bar>tp + b - size_ph\<bar> \<le> 1" "tp = (size_ph - (b - tp)) div 2"
    unfolding tp_def b_def y_def by linarith+
  have ink: "\<forall>px py. \<not> (l \<le> px \<and> px < r \<and> tp \<le> py \<and> py < b) \<longrightarrow>
      Image_getpixel L im (px, py) = Image_getpixel L (canvas L) (px, py)"
    using assms(2) d placed unfolding text_ink_contract_def by blast
  have "size_ph = 1024" by (simp add: size_ph_def)
  with m d placed h v ink
  show "\<exists>bbox l tp r b.
         ImageDraw_textbbox L (canvas L) (0, 0) text_ph font = Inr bbox \<and>
         ImageDraw_text L (canvas L) (text_origin bbox) text_ph ''white'' font = Inr im \<and>
         ImageDraw_textbbox L (canvas L) (text_origin bbox) text_ph font = Inr (l, tp, r, b) \<and>
         \<bar>l + r - size_ph\<bar> \<le> 1 \<and> \<bar>tp + b - size_ph\<bar> \<le> 1 \<and>
         l = (size_ph - (r - l)) div 2 \<and> tp = (size_ph - (b - tp)) div 2 \<and> size_ph = 1024 \<and>
         (\<forall>px py. \<not> (l \<le> px \<and> px < r \<and> tp \<le> py \<and> py < b) \<longrightarrow>
            Image_getpixel L im (px, py) = Image_getpixel L (canvas L) (px, py))"
    by blast
next
  assume "save_contract L \<and> create_placeholder_icon L w = Inr w'"
  then show "\<exists>font im. select_font L = Inr font \<and> placeholder_image L font = Inr im \<and>
         files w' source_path = Some im"
    using ph_source_saved by blast
qed

theorem label_centred_witness:
  "textbbox_contract stub_pil \<and> text_ink_contract stub_pil \<and>
   placeholder_image stub_pil 6 = Inr ((1024, 1024), (0, 122, 255)) \<and>
   ImageDraw_textbbox stub_pil (canvas stub_pil) (0, 0) text_ph 6 = Inr (1, 2, 13, 13) \<and>
   text_origin (1, 2, 13, 13) = (505, 504) \<and>
   ImageDraw_text stub_pil (canvas stub_pil) (505, 504) text_ph ''white'' 6
     = Inr ((1024, 1024), (0, 122, 255)) \<and>
   ImageDraw_textbbox stub_pil (canvas stub_pil) (505, 504) text_ph 6 = Inr (506, 506, 518, 517) \<and>
   \<bar>506 + 518 - size_ph\<bar> \<le> 1 \<and> \<bar>506 + 517 - size_ph\<bar> \<le> 1 \<and>
   506 = (size_ph - (518 - 506)) div 2 \<and> 506 = (size_ph - (517 - 506)) div 2 \<and>
   Image_getpixel stub_pil ((1024, 1024), (0, 122, 255)) (0, 0)
     = Image_getpixel stub_pil (canvas stub_pil) (0, 0) \<and>
   save_contract stub_pil \<and>
   (\<exists>w'. create_placeholder_icon stub_pil empty_world = Inr w' \<and>
      select_font stub_pil = Inr 6 \<and>
      files w' source_path = Some ((1024, 1024), (0, 122, 255)))"
proof -
  let ?src = "((1024, 1024), (0, 122, 255)) :: (int \<times> int) \<times> rgb"
  have e0: "ImageDraw_textbbox stub_pil (canvas stub_pil) (0, 0) text_ph 6 = Inr (1, 2, 13, 13)"
    by (simp add: stub_pil_def text_ph_def)
  have eo: "text_origin (1, 2, 13, 13) = (505, 504)"
    by (simp add: text_origin_def size_ph_def)
  have e1: "ImageDraw_textbbox stub_pil (canvas stub_pil) (505, 504) text_ph 6
      = Inr (506, 506, 518, 517)"
    by (simp add: stub_pil_def text_ph_def)
  from label_centred[OF stub_textbbox_contract stub_text_ink_contract,
      where font = 6 and im = ?src, THEN conjunct1, THEN mp, OF stub_placeholder_image]
  obtain bbox l tp r b where
    m: "ImageDraw_textbbox stub_pil (canvas stub_pil) (0, 0) text_ph 6 = Inr bbox" and
    d: "ImageDraw_text stub_pil (canvas stub_pil) (text_origin bbox) text_ph ''white'' 6 = Inr ?src" and
    p: "ImageDraw_textbbox stub_pil (canvas stub_pil) (text_origin bbox) text_ph 6 = Inr (l, tp, r, b)" and
    c: "\<bar>l + r - size_ph\<bar> \<le> 1" "\<bar>tp + b - size_ph\<bar> \<le> 1"
      "l = (size_ph - (r - l)) div 2" "tp = (size_ph - (b - tp)) div 2" and
    ink: "\<forall>px py. \<not> (l \<le> px \<and> px < r \<and> tp \<le> py \<and> py < b) \<longrightarrow>
      Image_getpixel stub_pil ?src (px, py) = Image_getpixel stub_pil (canvas stub_pil) (px, py)"
    by blast
  from m e0 have bbox: "bbox = (1, 2, 13, 13)" by simp
  from p e1 have box: "l = 506" "tp = 506" "r = 518" "b = 517"
    by (simp_all add: bbox eo)
  from ink have i0: "Image_getpixel stub_pil ?src (0, 0) = Image_getpixel stub_pil (canvas stub_pil) (0, 0)"
    by (simp add: box)
  obtain w' where w': "create_placeholder_icon stub_pil empty_world = Inr w'"
    using stub_ph_runs by blast
  from label_centred[OF stub_textbbox_contract stub_text_ink_contract,
      where w = empty_world and w' = w', THEN conjunct2, THEN mp,
      OF conjI[OF stub_save_contract w']]
  have s: "files w' source_path = Some ?src"
    by (auto simp: stub_select_font stub_placeholder_image)
  have run: "\<exists>w'. create_placeholder_icon stub_pil empty_world = Inr w' \<and>
      select_font stub_pil = Inr 6 \<and> files w' source_path = Some ?src"
    using w' s stub_select_font by blast
  from d have d': "ImageDraw_text stub_pil (canvas stub_pil) (505, 504) text_ph ''white'' 6 = Inr ?src"
    by (simp only: bbox eo)
  from stub_textbbox_contract stub_text_ink_contract stub_placeholder_image[of 6] e0 eo d' e1
    c[unfolded box] i0 stub_save_contract run
  show ?thesis by (intro conjI)
qed

section \<open>Exceptions and the font fallback\<close>

lemma loop_stdout_raised:
  "icons_loop_gen L d img items w = Inl (e, w') \<Longrightarrow>
     \<exists>m<length items. stdout w' = stdout w @ map created_line (take m items)"
proof (induction items arbitrary: w)
  case Nil then show ?case by simp
next
  case (Cons kn items)
  obtain k n where kn: "kn = (k, n)" by (cases kn)
  show ?case
  proof (cases "Image_resize L img (n, n) LANCZOS")
    case (Inl e0)
    with Cons.prems have "w' = w" by (simp add: kn)
    then have "stdout w' = stdout w @ map created_line (take 0 (kn # items))" by simp
    then show ?thesis by blast
  next
    case (Inr r)
    show ?thesis
    proof (cases "Image_save L r (path_join d k) ''PNG'' (files w)")
      case (Inl efs)
      with Inr Cons.prems have "stdout w' = stdout w" by (auto simp: kn split: prod.splits)
      then have "stdout w' = stdout w @ map created_line (take 0 (kn # items))" by simp
      then show ?thesis by blast
    next
      case (Inr fs)
      let ?w1 = "print_line (''Created '' @ k @ '' ('' @ str n @ ''x'' @ str n @ '')'') (w\<lparr>files := fs\<rparr>)"
      from Inr \<open>Image_resize L img (n, n) LANCZOS = Inr r\<close> Cons.prems
      have "icons_loop_gen L d img items ?w1 = Inl (e, w')" by (simp add: kn)
      from Cons.IH[OF this] obtain m where m: "m < length items"
        "stdout w' = stdout ?w1 @ map created_line (take m items)" by blast
      have "stdout ?w1 = stdout w @ [created_line kn]"
        by (simp add: print_line_def created_line_def kn)
      with m(2) have "stdout w' = stdout w @ map created_line (take (Suc m) (kn # items))" by simp
      with m(1) show ?thesis by (metis Suc_less_eq length_Cons)
    qed
  qed
qed

lemma loop_resize_raises:
  "icons_loop_gen L d img pre w = Inr w2 \<Longrightarrow> Image_resize L img (n, n) LANCZOS = Inl e \<Longrightarrow>
     icons_loop_gen L d img (pre @ (k, n) # post) w = Inl (e, w2)"
  by (simp add: loop_append)

lemma loop_save_raises:
  "icons_loop_gen L d img pre w = Inr w2 \<Longrightarrow> Image_resize L img (n, n) LANCZOS = Inr r \<Longrightarrow>
   Image_save L r (path_join d k) ''PNG'' (files w2) = Inl (e, fs) \<Longrightarrow>
     icons_loop_gen L d img (pre @ (k, n) # post) w = Inl (e, w2\<lparr>files := fs\<rparr>)"
  by (simp add: loop_append)

lemma gen_open_raises:
  "Image_open L (source_icon b) (files w) = Inl e \<Longrightarrow> \<exists>w'. generate_icons L b w = Inl (e, w')"
  by (simp add: generate_icons_def Let_def print_line_def)

lemma gen_loop_raises:
  "Image_open L (source_icon b) (files w) = Inr img \<Longrightarrow>
   icons_loop_gen L (output_dir_gen b) img icons_gen
     (print_line (''Loading source icon: '' @ source_icon b) w) = Inl x \<Longrightarrow>
   generate_icons L b w = Inl x"
  by (simp add: generate_icons_def Let_def print_line_def)

lemma loop_truetype_irrelevant:
  "icons_loop_gen (L\<lparr>ImageFont_truetype := g\<rparr>) d img items w = icons_loop_gen L d img items w"
  by (induction items arbitrary: w) (auto split: sum.splits)

lemma loop_succeeds_on:
  assumes "list_all (\<lambda>(k, n). \<exists>r. Image_resize L img (n, n) LANCZOS = Inr r \<and>
             (\<forall>p fs. \<exists>fs'. Image_save L r p ''PNG'' fs = Inr fs')) items"
  shows "\<exists>w'. icons_loop_gen L d img items w = Inr w'"
  using assms
proof (induction items arbitrary: w)
  case Nil then show ?case by simp
next
  case (Cons kn items)
  obtain k n where kn: "kn = (k, n)" by (cases kn)
  from Cons.prems obtain r where r: "Image_resize L img (n, n) LANCZOS = Inr r"
    and s: "\<forall>p fs. \<exists>fs'. Image_save L r p ''PNG'' fs = Inr fs'"
    by (auto simp: kn)
  from s obtain fs where "Image_save L r (path_join d k) ''PNG'' (files w) = Inr fs"
    by blast
  with r Cons.IH Cons.prems show ?case by (simp add: kn)
qed

lemma ph_select_raises:
  "select_font L = Inl e \<Longrightarrow> create_placeholder_icon L w = Inl (e, w)"
  by (simp add: create_placeholder_icon_def)

lemma ph_image_raises:
  "select_font L = Inr font \<Longrightarrow> placeholder_image L font = Inl e \<Longrightarrow>
   create_placeholder_icon L w = Inl (e, w)"
  by (simp add: create_placeholder_icon_def placeholder_with_font_def)

lemma ph_save_raises:
  "select_font L = Inr font \<Longrightarrow> placeholder_image L font = Inr img \<Longrightarrow>
   Image_save L img source_path ''PNG'' (files w) = Inl (e, fs) \<Longrightarrow>
   create_placeholder_icon L w = Inl (e, w\<lparr>files := fs\<rparr>)"
  by (simp add: create_placeholder_icon_def placeholder_with_font_def)

lemma ph_loop_raises:
  "select_font L = Inr font \<Longrightarrow> placeholder_image L font = Inr img \<Longrightarrow>
   Image_save L img source_path ''PNG'' (files w) = Inr fs0 \<Longrightarrow>
   icons_loop_gen L output_dir_ph img icons_gen
     (print_line (''Created source icon: '' @ source_path) (w\<lparr>files := fs0\<rparr>)) = Inl x \<Longrightarrow>
   create_placeholder_icon L w = Inl x"
  by (simp add: create_placeholder_icon_def placeholder_with_font_def Let_def loop_same icons_same)

lemma select_font_fallback:
  "ImageFont_truetype L ''/System/Library/Fonts/Helvetica.ttc'' 400 = Inl e \<Longrightarrow>
   select_font L = ImageFont_load_default L"
  by (simp add: select_font_def)

lemma with_font_truetype_irrelevant:
  "placeholder_with_font (L\<lparr>ImageFont_truetype := g\<rparr>) font w = placeholder_with_font L font w"
  by (auto simp: placeholder_with_font_def placeholder_image_def canvas_def Let_def loop_same
      loop_truetype_irrelevant split: sum.splits)

lemma fallback_as_loaded:
  assumes "ImageFont_truetype L ''/System/Library/Fonts/Helvetica.ttc'' 400 = Inl e"
  shows "create_placeholder_icon L w =
     create_placeholder_icon (L\<lparr>ImageFont_truetype := \<lambda>p n. ImageFont_load_default L\<rparr>) w"
proof -
  have 1: "select_font L = ImageFont_load_default L"
    by (rule select_font_fallback[OF assms])
  have 2: "select_font (L\<lparr>ImageFont_truetype := \<lambda>p n. ImageFont_load_default L\<rparr>)
      = ImageFont_load_default L"
    by (cases "ImageFont_load_default L") (simp_all add: select_font_def)
  show ?thesis
    by (simp only: create_placeholder_icon_def 1 2 with_font_truetype_irrelevant)
qed

lemma ph_stdout:
  assumes "create_placeholder_icon L w = Inr w'"
  shows "stdout w' = stdout w @ progress_ph"
proof -
  from assms obtain font img fs w2 where
    l: "icons_loop_gen L output_dir_ph img icons_gen
        (print_line (''Created source icon: '' @ source_path) (w\<lparr>files := fs\<rparr>)) = Inr w2"
    and w': "w' = print_line (CHR 0x0A # ''All icons generated successfully!'') w2"
    by (rule ph_success)
  from loop_stdout[OF l] w' show ?thesis
    by (simp add: print_line_def progress_ph_def icons_same)
qed

lemma ph_stdout_raised:
  assumes "create_placeholder_icon L w = Inl (e, w')"
  shows "\<exists>m. stdout w' = stdout w @ take m progress_ph"
proof -
  have none: "\<exists>m. stdout w' = stdout w @ take m progress_ph" if "stdout w' = stdout w"
    using that by (intro exI[of _ 0]) simp
  show ?thesis
  proof (cases "select_font L")
    case (Inl e0)
    with assms have "w' = w" by (simp add: create_placeholder_icon_def)
    then show ?thesis by (intro none) simp
  next
    case font: (Inr font)
    show ?thesis
    proof (cases "placeholder_image L font")
      case (Inl e0)
      with font assms have "w' = w"
        by (simp add: create_placeholder_icon_def placeholder_with_font_def)
      then show ?thesis by (intro none) simp
    next
      case img: (Inr img)
      show ?thesis
      proof (cases "Image_save L img source_path ''PNG'' (files w)")
        case (Inl efs)
        with font img assms have "stdout w' = stdout w"
          by (auto simp: create_placeholder_icon_def placeholder_with_font_def split: prod.splits)
        then show ?thesis by (rule none)
      next
        case (Inr fs)
        let ?w1 = "print_line (''Created source icon: '' @ source_path) (w\<lparr>files := fs\<rparr>)"
        from Inr font img assms
        have "icons_loop_gen L output_dir_ph img icons_gen ?w1 = Inl (e, w')"
          by (auto simp: create_placeholder_icon_def placeholder_with_font_def Let_def loop_same
              icons_same split: sum.splits)
        from loop_stdout_raised[OF this] obtain m where
          "m < length icons_gen" "stdout w' = stdout ?w1 @ map created_line (take m icons_gen)"
          by blast
        then have "stdout w' = stdout w @ take (Suc m) progress_ph"
          by (simp add: print_line_def progress_ph_def icons_same take_map)
        then show ?thesis by blast
      qed
    qed
  qed
qed

lemma ph_completes:
  assumes "select_font L = Inr font" "placeholder_image L font = Inr img"
    and "\<And>im p fs. \<exists>fs'. Image_save L im p ''PNG'' fs = Inr fs'"
    and "list_all (\<lambda>(filename, n). \<exists>r. Image_resize L img (n, n) LANCZOS = Inr r) icons_gen"
  shows "\<exists>w'. create_placeholder_icon L w = Inr w'"
proof -
  from assms(3) obtain fs where
    s: "Image_save L img source_path ''PNG'' (files w) = Inr fs"
    by blast
  from loop_succeeds[OF assms(3) assms(4)] obtain w2 where
    "icons_loop_gen L output_dir_ph img icons_gen
        (print_line (''Created source icon: '' @ source_path) (w\<lparr>files := fs\<rparr>)) = Inr w2"
    by blast
  with s assms(1,2) show ?thesis
    by (simp add: create_placeholder_icon_def placeholder_with_font_def Let_def loop_same icons_same)
qed

subsection \<open>After the fallback the run may still abort\<close>

text \<open>
  Substituting the default font does not by itself let the run complete. In the
  instance where the built-in font is a bitmap font that \<open>textbbox\<close> refuses, loading
  Helvetica fails, the built-in font is taken in its place, and the run ends at line 21
  with \<open>ValueError\<close>: nothing is written and nothing printed. In the same instance with
  Helvetica installed the run completes.
\<close>

theorem font_fallback_may_abort:
  "ImageFont_truetype stub_bitmap ''/System/Library/Fonts/Helvetica.ttc'' 400 = Inl OSError \<and>
   select_font stub_bitmap = Inr 0 \<and>
   ImageDraw_textbbox stub_bitmap (canvas stub_bitmap) (0, 0) text_ph 0 = Inl ValueError \<and>
   create_placeholder_icon stub_bitmap empty_world = Inl (ValueError, empty_world)"
  by (simp add: stub_bitmap_def stub_pil_def select_font_def create_placeholder_icon_def
      placeholder_with_font_def placeholder_image_def)

lemma font_installed_completes:
  "\<exists>w'. create_placeholder_icon (stub_bitmap\<lparr>ImageFont_truetype := \<lambda>p n. Inr 6\<rparr>) empty_world
          = Inr w'"
proof (rule ph_completes)
  show "select_font (stub_bitmap\<lparr>ImageFont_truetype := \<lambda>p n. Inr 6\<rparr>) = Inr 6"
    by (simp add: select_font_def)
  show "placeholder_image (stub_bitmap\<lparr>ImageFont_truetype := \<lambda>p n. Inr 6\<rparr>) 6
      = Inr ((1024, 1024), (0, 122, 255))"
    by (simp add: placeholder_image_def canvas_def size_ph_def stub_bitmap_def stub_pil_def)
  show "\<exists>fs'. Image_save (stub_bitmap\<lparr>ImageFont_truetype := \<lambda>p n. Inr 6\<rparr>) im p ''PNG'' fs
      = Inr fs'" for im p fs
    by (simp add: stub_bitmap_def stub_pil_def)
  show "list_all (\<lambda>(filename, n).
      \<exists>r. Image_resize (stub_bitmap\<lparr>ImageFont_truetype := \<lambda>p n. Inr 6\<rparr>)
             ((1024, 1024), (0, 122, 255)) (n, n) LANCZOS = Inr r) icons_gen"
    by (simp add: icons_gen_def stub_bitmap_def stub_pil_def)
qed

subsection \<open>The only handler\<close>

text \<open>
  Claim C4, amended. In \<open>create_placeholder_icon.py\<close>, when loading Helvetica at size 400
  raises, whatever the exception, the built-in default font is asked for in its place,
  and the run goes on exactly as a run in which the load had returned what
  \<open>load_default\<close> returns: same files, same printed lines, same outcome. The run
  completes when \<open>load_default\<close> returns a font, \<open>textbbox\<close> and \<open>draw.text\<close> accept it, no
  \<open>save\<close> fails and every manifest \<open>resize\<close> of the image returns. Nothing reports the
  substitution: a complete run prints the fixed progress lines and a run ended by an
  exception a prefix of them. No other exception is handled anywhere: what
  \<open>load_default\<close>, \<open>textbbox\<close> or \<open>draw.text\<close> raises at lines 17, 21 and 29, and what
  \<open>Image.open\<close>, \<open>resize\<close> or \<open>save\<close> raises, at whichever manifest entry, ends the run of
  either script with that exception.
\<close>

theorem font_fallback_only_handler:
  "(ImageFont_truetype L ''/System/Library/Fonts/Helvetica.ttc'' 400 = Inl e \<longrightarrow>
      select_font L = ImageFont_load_default L \<and>
      create_placeholder_icon L w =
        create_placeholder_icon (L\<lparr>ImageFont_truetype := \<lambda>p n. ImageFont_load_default L\<rparr>) w) \<and>
   (ImageFont_truetype L ''/System/Library/Fonts/Helvetica.ttc'' 400 = Inl e \<and>
    ImageFont_load_default L = Inr font \<and>
    placeholder_image L font = Inr img \<and>
    (\<forall>im p fs. \<exists>fs'. Image_save L im p ''PNG'' fs = Inr fs') \<and>
    list_all (\<lambda>(filename, n). \<exists>r. Image_resize L img (n, n) LANCZOS = Inr r) icons_ph \<longrightarrow>
      (\<exists>w'. create_placeholder_icon L w = Inr w')) \<and>
   (create_placeholder_icon L w = Inr w' \<longrightarrow> stdout w' = stdout w @ progress_ph) \<and>
   (create_placeholder_icon L w = Inl (e', w') \<longrightarrow>
      (\<exists>m. stdout w' = stdout w @ take m progress_ph)) \<and>
   (Image_open L (source_icon base_dir) (files w) = Inl e' \<longrightarrow>
      (\<exists>w'. generate_icons L base_dir w = Inl (e', w'))) \<and>
   (Image_open L (source_icon base_dir) (files w) = Inr img \<and>
    icons_gen = pre @ (k, n) # post \<and>
    icons_loop_gen L (output_dir_gen base_dir) img pre
      (print_line (''Loading source icon: '' @ source_icon base_dir) w) = Inr w2 \<and>
    Image_resize L img (n, n) LANCZOS = Inl e' \<longrightarrow>
      generate_icons L base_dir w = Inl (e', w2)) \<and>
   (Image_open L (source_icon base_dir) (files w) = Inr img \<and>
    icons_gen = pre @ (k, n) # post \<and>
    icons_loop_gen L (output_dir_gen base_dir) img pre
      (print_line (''Loading source icon: '' @ source_icon base_dir) w) = Inr w2 \<and>
    Image_resize L img (n, n) LANCZOS = Inr r \<and>
    Image_save L r (path_join (output_dir_gen base_dir) k) ''PNG'' (files w2) = Inl (e', fs) \<longrightarrow>
      generate_icons L base_dir w = Inl (e', w2\<lparr>files := fs\<rparr>)) \<and>
   (ImageFont_truetype L ''/System/Library/Fonts/Helvetica.ttc'' 400 = Inl e \<and>
    ImageFont_load_default L = Inl e' \<longrightarrow>
      create_placeholder_icon L w = Inl (e', w)) \<and>
   (select_font L = Inr font \<and>
    ImageDraw_textbbox L (canvas L) (0, 0) text_ph font = Inl e' \<longrightarrow>
      create_placeholder_icon L w = Inl (e', w)) \<and>
   (select_font L = Inr font \<and>
    ImageDraw_textbbox L (canvas L) (0, 0) text_ph font = Inr bbox \<and>
    ImageDraw_text L (canvas L) (text_origin bbox) text_ph ''white'' font = Inl e' \<longrightarrow>
      create_placeholder_icon L w = Inl (e', w)) \<and>
   (select_font L = Inr font \<and> placeholder_image L font = Inr img \<and>
    Image_save L img source_path ''PNG'' (files w) = Inl (e', fs) \<longrightarrow>
      create_placeholder_icon L w = Inl (e', w\<lparr>files := fs\<rparr>)) \<and>
   (select_font L = Inr font \<and> placeholder_image L font = Inr img \<and>
    Image_save L img source_path ''PNG'' (files w) = Inr fs0 \<and>
    icons_ph = pre @ (k, n) # post \<and>
    icons_loop_ph L output_dir_ph img pre
      (print_line (''Created source icon: '' @ source_path) (w\<lparr>files := fs0\<rparr>)) = Inr w2 \<and>
    Image_resize L img (n, n) LANCZOS = Inl e' \<longrightarrow>
      create_placeholder_icon L w = Inl (e', w2)) \<and>
   (select_font L = Inr font \<and> placeholder_image L font = Inr img \<and>
    Image_save L img source_path ''PNG'' (files w) = Inr fs0 \<and>
    icons_ph = pre @ (k, n) # post \<and>
    icons_loop_ph L output_dir_ph img pre
      (print_line (''Created source icon: '' @ source_path) (w\<lparr>files := fs0\<rparr>)) = Inr w2 \<and>
    Image_resize L img (n, n) LANCZOS = Inr r \<and>
    Image_save L r (path_join output_dir_ph k) ''PNG'' (files w2) = Inl (e', fs) \<longrightarrow>
      create_placeholder_icon L w = Inl (e', w2\<lparr>files := fs\<rparr>))"
  (is "?caught \<and> ?completes \<and> ?lines \<and> ?lines_raised \<and> ?G1 \<and> ?G2 \<and> ?G3 \<and>
       ?F1 \<and> ?F2 \<and> ?F3 \<and> ?P1 \<and> ?P2 \<and> ?P3")
proof -
  have caught: ?caught
  proof
    assume t: "ImageFont_truetype L ''/System/Library/Fonts/Helvetica.ttc'' 400 = Inl e"
    from select_font_fallback[OF t] fallback_as_loaded[OF t, of w]
    show "select_font L = ImageFont_load_default L \<and>
      create_placeholder_icon L w =
        create_placeholder_icon (L\<lparr>ImageFont_truetype := \<lambda>p n. ImageFont_load_default L\<rparr>) w"
      by (rule conjI)
  qed
  have completes: ?completes
  proof (intro impI, elim conjE)
    assume t: "ImageFont_truetype L ''/System/Library/Fonts/Helvetica.ttc'' 400 = Inl e"
      and d: "ImageFont_load_default L = Inr font"
      and i: "placeholder_image L font = Inr img"
      and s: "\<forall>im p fs. \<exists>fs'. Image_save L im p ''PNG'' fs = Inr fs'"
      and r: "list_all (\<lambda>(filename, n). \<exists>r. Image_resize L img (n, n) LANCZOS = Inr r) icons_ph"
    from t d have f: "select_font L = Inr font"
      by (simp only: select_font_fallback[OF t])
    from r have r': "list_all (\<lambda>(filename, n). \<exists>r. Image_resize L img (n, n) LANCZOS = Inr r)
        icons_gen"
      by (simp only: icons_same)
    from s show "\<exists>w'. create_placeholder_icon L w = Inr w'"
      by (intro ph_completes[OF f i _ r']) blast
  qed
  have lines: ?lines
    by (intro impI) (rule ph_stdout)
  have lines_raised: ?lines_raised
    by (intro impI) (rule ph_stdout_raised)
  have G1: ?G1
    by (intro impI) (rule gen_open_raises)
  have G2: ?G2
  proof (intro impI, elim conjE)
    assume a: "Image_open L (source_icon base_dir) (files w) = Inr img"
      and m: "icons_gen = pre @ (k, n) # post"
      and l: "icons_loop_gen L (output_dir_gen base_dir) img pre
        (print_line (''Loading source icon: '' @ source_icon base_dir) w) = Inr w2"
      and x: "Image_resize L img (n, n) LANCZOS = Inl e'"
    have "icons_loop_gen L (output_dir_gen base_dir) img icons_gen
        (print_line (''Loading source icon: '' @ source_icon base_dir) w) = Inl (e', w2)"
      unfolding m by (rule loop_resize_raises[OF l x])
    with a show "generate_icons L base_dir w = Inl (e', w2)"
      by (rule gen_loop_raises)
  qed
  have G3: ?G3
  proof (intro impI, elim conjE)
    assume a: "Image_open L (source_icon base_dir) (files w) = Inr img"
      and m: "icons_gen = pre @ (k, n) # post"
      and l: "icons_loop_gen L (output_dir_gen base_dir) img pre
        (print_line (''Loading source icon: '' @ source_icon base_dir) w) = Inr w2"
      and x: "Image_resize L img (n, n) LANCZOS = Inr r"
      and y: "Image_save L r (path_join (output_dir_gen base_dir) k) ''PNG'' (files w2) = Inl (e', fs)"
    have "icons_loop_gen L (output_dir_gen base_dir) img icons_gen
        (print_line (''Loading source icon: '' @ source_icon base_dir) w)
          = Inl (e', w2\<lparr>files := fs\<rparr>)"
      unfolding m by (rule loop_save_raises[OF l x y])
    with a show "generate_icons L base_dir w = Inl (e', w2\<lparr>files := fs\<rparr>)"
      by (rule gen_loop_raises)
  qed
  have F1: ?F1
  proof (intro impI, elim conjE)
    assume t: "ImageFont_truetype L ''/System/Library/Fonts/Helvetica.ttc'' 400 = Inl e"
      and d: "ImageFont_load_default L = Inl e'"
    from d have "select_font L = Inl e'"
      by (simp only: select_font_fallback[OF t])
    then show "create_placeholder_icon L w = Inl (e', w)"
      by (rule ph_select_raises)
  qed
  have F2: ?F2
  proof (intro impI, elim conjE)
    assume f: "select_font L = Inr font"
      and b: "ImageDraw_textbbox L (canvas L) (0, 0) text_ph font = Inl e'"
    from b have "placeholder_image L font = Inl e'"
      by (simp add: placeholder_image_def)
    with f show "create_placeholder_icon L w = Inl (e', w)"
      by (rule ph_image_raises)
  qed
  have F3: ?F3
  proof (intro impI, elim conjE)
    assume f: "select_font L = Inr font"
      and b: "ImageDraw_textbbox L (canvas L) (0, 0) text_ph font = Inr bbox"
      and d: "ImageDraw_text L (canvas L) (text_origin bbox) text_ph ''white'' font = Inl e'"
    from b d have "placeholder_image L font = Inl e'"
      by (simp add: placeholder_image_def)
    with f show "create_placeholder_icon L w = Inl (e', w)"
      by (rule ph_image_raises)
  qed
  have P1: ?P1
  proof (intro impI, elim conjE)
    assume "select_font L = Inr font" "placeholder_image L font = Inr img"
      "Image_save L img source_path ''PNG'' (files w) = Inl (e', fs)"
    then show "create_placeholder_icon L w = Inl (e', w\<lparr>files := fs\<rparr>)"
      by (rule ph_save_raises)
  qed
  have P2: ?P2
  proof (intro impI, elim conjE)
    assume f: "select_font L = Inr font" and i: "placeholder_image L font = Inr img"
      and a: "Image_save L img source_path ''PNG'' (files w) = Inr fs0"
      and m: "icons_ph = pre @ (k, n) # post"
      and l: "icons_loop_ph L output_dir_ph img pre
        (print_line (''Created source icon: '' @ source_path) (w\<lparr>files := fs0\<rparr>)) = Inr w2"
      and x: "Image_resize L img (n, n) LANCZOS = Inl e'"
    from m have m': "icons_gen = pre @ (k, n) # post" by (simp only: icons_same)
    have "icons_loop_gen L output_dir_ph img icons_gen
        (print_line (''Created source icon: '' @ source_path) (w\<lparr>files := fs0\<rparr>)) = Inl (e', w2)"
      unfolding m' by (rule loop_resize_raises[OF l[unfolded loop_same] x])
    with f i a show "create_placeholder_icon L w = Inl (e', w2)"
      by (rule ph_loop_raises)
  qed
  have P3: ?P3
  proof (intro impI, elim conjE)
    assume f: "select_font L = Inr font" and i: "placeholder_image L font = Inr img"
      and a: "Image_save L img source_path ''PNG'' (files w) = Inr fs0"
      and m: "icons_ph = pre @ (k, n) # post"
      and l: "icons_loop_ph L output_dir_ph img pre
        (print_line (''Created source icon: '' @ source_path) (w\<lparr>files := fs0\<rparr>)) = Inr w2"
      and x: "Image_resize L img (n, n) LANCZOS = Inr r"
      and y: "Image_save L r (path_join output_dir_ph k) ''PNG'' (files w2) = Inl (e', fs)"
    from m have m': "icons_gen = pre @ (k, n) # post" by (simp only: icons_same)
    have "icons_loop_gen L output_dir_ph img icons_gen
        (print_line (''Created source icon: '' @ source_path) (w\<lparr>files := fs0\<rparr>))
          = Inl (e', w2\<lparr>files := fs\<rparr>)"
      unfolding m' by (rule loop_save_raises[OF l[unfolded loop_same] x y])
    with f i a show "create_placeholder_icon L w = Inl (e', w2\<lparr>files := fs\<rparr>)"
      by (rule ph_loop_raises)
  qed
  from caught completes lines lines_raised G1 G2 G3 F1 F2 F3 P1 P2 P3 show ?thesis
    by (intro conjI)
qed

theorem font_fallback_only_handler_witness:
  "ImageFont_truetype stub_pil ''/System/Library/Fonts/Helvetica.ttc'' 400 = Inl OSError \<and>
   select_font stub_pil = ImageFont_load_default stub_pil \<and>
   create_placeholder_icon stub_pil empty_world =
     create_placeholder_icon
       (stub_pil\<lparr>ImageFont_truetype := \<lambda>p n. ImageFont_load_default stub_pil\<rparr>) empty_world \<and>
   ImageFont_load_default stub_pil = Inr 6 \<and>
   placeholder_image stub_pil 6 = Inr ((1024, 1024), (0, 122, 255)) \<and>
   (\<exists>w'. create_placeholder_icon stub_pil empty_world = Inr w' \<and>
      stdout w' = stdout empty_world @ progress_ph) \<and>
   Image_open stub_pil (source_icon ''/repo'') (files empty_world) = Inl FileNotFoundError \<and>
   (\<exists>w'. generate_icons stub_pil ''/repo'' empty_world = Inl (FileNotFoundError, w')) \<and>
   Image_resize stub_no_large ((1024, 1024), (0, 122, 255)) (120, 120) LANCZOS = Inl ValueError \<and>
   (\<exists>w2. generate_icons stub_no_large ''/repo'' stub_world = Inl (ValueError, w2)) \<and>
   (\<exists>w2 fs. Image_save stub_no_120 ((120, 120), (0, 122, 255))
        (path_join (output_dir_gen ''/repo'') ''icon_40x40@3x.png'') ''PNG'' (files w2)
          = Inl (OSError, fs) \<and>
      generate_icons stub_no_120 ''/repo'' stub_world = Inl (OSError, w2\<lparr>files := fs\<rparr>)) \<and>
   ImageFont_load_default stub_no_font = Inl OSError \<and>
   create_placeholder_icon stub_no_font empty_world = Inl (OSError, empty_world) \<and>
   ImageDraw_textbbox stub_bitmap (canvas stub_bitmap) (0, 0) text_ph 0 = Inl ValueError \<and>
   create_placeholder_icon stub_bitmap empty_world = Inl (ValueError, empty_world) \<and>
   ImageDraw_text stub_no_draw (canvas stub_no_draw) (text_origin (1, 2, 13, 13)) text_ph ''white'' 6
     = Inl ValueError \<and>
   create_placeholder_icon stub_no_draw empty_world = Inl (ValueError, empty_world) \<and>
   create_placeholder_icon stub_disk_full empty_world
     = Inl (OSError, empty_world\<lparr>files := files empty_world\<rparr>) \<and>
   (\<exists>w2 m. create_placeholder_icon stub_no_large empty_world = Inl (ValueError, w2) \<and>
      stdout w2 = stdout empty_world @ take m progress_ph) \<and>
   (\<exists>w2 fs. create_placeholder_icon stub_no_120 empty_world = Inl (OSError, w2\<lparr>files := fs\<rparr>))"
proof -
  let ?helv = "''/System/Library/Fonts/Helvetica.ttc''"
  let ?src = "((1024, 1024), (0, 122, 255)) :: (int \<times> int) \<times> rgb"
  let ?k = "''icon_40x40@3x.png''"
  have split: "icons_gen = take 5 icons_gen @ (?k, 120) # drop 6 icons_gen"
    by (simp add: icons_gen_def)
  have split_ph: "icons_ph = take 5 icons_gen @ (?k, 120) # drop 6 icons_gen"
    by (simp add: icons_gen_def icons_ph_def)
  \<comment> \<open>the font is missing and the run completes\<close>
  have t: "ImageFont_truetype stub_pil ?helv 400 = Inl OSError"
    by (simp add: stub_pil_def)
  have d: "ImageFont_load_default stub_pil = Inr 6"
    by (simp add: stub_pil_def)
  note i = stub_placeholder_image[of 6]
  have sv: "\<forall>im p fs. \<exists>fs'. Image_save stub_pil im p ''PNG'' fs = Inr fs'"
    by (simp add: stub_pil_def)
  have rs: "list_all (\<lambda>(filename, n). \<exists>r. Image_resize stub_pil ?src (n, n) LANCZOS = Inr r) icons_ph"
    using stub_resizes by (simp only: icons_same)
  have A: "select_font stub_pil = ImageFont_load_default stub_pil \<and>
    create_placeholder_icon stub_pil empty_world =
      create_placeholder_icon
        (stub_pil\<lparr>ImageFont_truetype := \<lambda>p n. ImageFont_load_default stub_pil\<rparr>) empty_world"
    by (rule font_fallback_only_handler[where L = stub_pil and e = OSError and w = empty_world,
          THEN conjunct1, THEN mp])
      (rule t)
  have "\<exists>w'. create_placeholder_icon stub_pil empty_world = Inr w'"
    by (rule font_fallback_only_handler[where L = stub_pil and e = OSError and w = empty_world
          and font = 6 and img = ?src,
          THEN conjunct2, THEN conjunct1, THEN mp])
      (intro conjI t d i sv rs)
  then obtain w' where w': "create_placeholder_icon stub_pil empty_world = Inr w'" ..
  have B: "stdout w' = stdout empty_world @ progress_ph"
    by (rule font_fallback_only_handler[where L = stub_pil and w = empty_world and w' = w',
          THEN conjunct2, THEN conjunct2, THEN conjunct1, THEN mp])
      (rule w')
  \<comment> \<open>the source icon is missing\<close>
  have o: "Image_open stub_pil (source_icon ''/repo'') (files empty_world) = Inl FileNotFoundError"
    by (simp add: stub_pil_def empty_world_def)
  have C: "\<exists>w'. generate_icons stub_pil ''/repo'' empty_world = Inl (FileNotFoundError, w')"
    by (rule font_fallback_only_handler[where L = stub_pil and w = empty_world
          and base_dir = "''/repo''" and e' = FileNotFoundError,
          THEN conjunct2, THEN conjunct2, THEN conjunct2, THEN conjunct2, THEN conjunct1,
          THEN mp])
      (rule o)
  \<comment> \<open>resize raises at the sixth entry\<close>
  have o1: "Image_open stub_no_large (source_icon ''/repo'') (files stub_world) = Inr ?src"
    by (simp add: stub_no_large_def stub_pil_def stub_world_def)
  have x1: "Image_resize stub_no_large im (120, 120) LANCZOS = Inl ValueError" for im
    by (simp add: stub_no_large_def stub_pil_def)
  have pre1: "\<exists>w2. icons_loop_gen stub_no_large d im (take 5 icons_gen) w = Inr w2" for d im w
    by (rule loop_succeeds_on, cases "snd im")
      (simp add: stub_no_large_def stub_pil_def icons_gen_def)
  then obtain w2 where l1:
    "icons_loop_gen stub_no_large (output_dir_gen ''/repo'') ?src (take 5 icons_gen)
      (print_line (''Loading source icon: '' @ source_icon ''/repo'') stub_world) = Inr w2"
    by blast
  have D: "generate_icons stub_no_large ''/repo'' stub_world = Inl (ValueError, w2)"
    by (rule font_fallback_only_handler[where L = stub_no_large and w = stub_world
          and base_dir = "''/repo''" and img = ?src and pre = "take 5 icons_gen" and k = ?k
          and n = 120 and post = "drop 6 icons_gen" and ?w2.0 = w2 and e' = ValueError,
          THEN conjunct2, THEN conjunct2, THEN conjunct2, THEN conjunct2, THEN conjunct2,
          THEN conjunct1, THEN mp])
      (intro conjI o1 split l1 x1)
  \<comment> \<open>save raises at the sixth entry\<close>
  have o2: "Image_open stub_no_120 (source_icon ''/repo'') (files stub_world) = Inr ?src"
    by (simp add: stub_no_120_def stub_pil_def stub_world_def)
  have x2: "Image_resize stub_no_120 im (120, 120) LANCZOS = Inr ((120, 120), snd im)" for im
    by (simp add: stub_no_120_def stub_pil_def)
  have y2: "Image_save stub_no_120 ((120, 120), c) p ''PNG'' fs = Inl (OSError, fs)" for c p fs
    by (simp add: stub_no_120_def stub_pil_def)
  have pre2: "\<exists>w2. icons_loop_gen stub_no_120 d im (take 5 icons_gen) w = Inr w2" for d im w
    by (rule loop_succeeds_on, cases "snd im")
      (simp add: stub_no_120_def stub_pil_def icons_gen_def)
  then obtain w3 where l2:
    "icons_loop_gen stub_no_120 (output_dir_gen ''/repo'') ?src (take 5 icons_gen)
      (print_line (''Loading source icon: '' @ source_icon ''/repo'') stub_world) = Inr w3"
    by blast
  have E: "generate_icons stub_no_120 ''/repo'' stub_world = Inl (OSError, w3\<lparr>files := files w3\<rparr>)"
    by (rule font_fallback_only_handler[where L = stub_no_120 and w = stub_world
          and base_dir = "''/repo''" and img = ?src and pre = "take 5 icons_gen" and k = ?k
          and n = 120 and post = "drop 6 icons_gen" and ?w2.0 = w3 and e' = OSError
          and r = "((120, 120), snd ?src)" and fs = "files w3",
          THEN conjunct2, THEN conjunct2, THEN conjunct2, THEN conjunct2, THEN conjunct2,
          THEN conjunct2, THEN conjunct1, THEN mp])
      (intro conjI o2 split l2 x2 y2)
  \<comment> \<open>line 17: there is no built-in font either\<close>
  have t6: "ImageFont_truetype stub_no_font ?helv 400 = Inl OSError"
    by (simp add: stub_no_font_def stub_pil_def)
  have d6: "ImageFont_load_default stub_no_font = Inl OSError"
    by (simp add: stub_no_font_def)
  have F1: "create_placeholder_icon stub_no_font empty_world = Inl (OSError, empty_world)"
    by (rule font_fallback_only_handler[where L = stub_no_font and w = empty_world
          and e = OSError and e' = OSError,
          THEN conjunct2, THEN conjunct2, THEN conjunct2, THEN conjunct2, THEN conjunct2,
          THEN conjunct2, THEN conjunct2, THEN conjunct1, THEN mp])
      (intro conjI t6 d6)
  \<comment> \<open>line 21: the built-in font cannot be measured\<close>
  have f7: "select_font stub_bitmap = Inr 0"
    by (simp add: select_font_def stub_bitmap_def stub_pil_def)
  have b7: "ImageDraw_textbbox stub_bitmap (canvas stub_bitmap) (0, 0) text_ph 0 = Inl ValueError"
    by (simp add: stub_bitmap_def)
  have F2: "create_placeholder_icon stub_bitmap empty_world = Inl (ValueError, empty_world)"
    by (rule font_fallback_only_handler[where L = stub_bitmap and w = empty_world
          and font = 0 and e' = ValueError,
          THEN conjunct2, THEN conjunct2, THEN conjunct2, THEN conjunct2, THEN conjunct2,
          THEN conjunct2, THEN conjunct2, THEN conjunct2, THEN conjunct1, THEN mp])
      (intro conjI f7 b7)
  \<comment> \<open>line 29: the label cannot be drawn\<close>
  have f8: "select_font stub_no_draw = Inr 6"
    by (simp add: select_font_def stub_no_draw_def stub_pil_def)
  have b8: "ImageDraw_textbbox stub_no_draw (canvas stub_no_draw) (0, 0) text_ph 6
      = Inr (1, 2, 13, 13)"
    by (simp add: stub_no_draw_def stub_pil_def text_ph_def)
  have d8: "ImageDraw_text stub_no_draw (canvas stub_no_draw) (text_origin (1, 2, 13, 13))
      text_ph ''white'' 6 = Inl ValueError"
    by (simp add: stub_no_draw_def)
  have F3: "create_placeholder_icon stub_no_draw empty_world = Inl (ValueError, empty_world)"
    by (rule font_fallback_only_handler[where L = stub_no_draw and w = empty_world
          and font = 6 and bbox = "(1, 2, 13, 13)" and e' = ValueError,
          THEN conjunct2, THEN conjunct2, THEN conjunct2, THEN conjunct2, THEN conjunct2,
          THEN conjunct2, THEN conjunct2, THEN conjunct2, THEN conjunct2, THEN conjunct1,
          THEN mp])
      (intro conjI f8 b8 d8)
  \<comment> \<open>the placeholder generator cannot write its source image\<close>
  have f3: "select_font stub_disk_full = Inr 6"
    by (simp add: select_font_def stub_disk_full_def stub_pil_def)
  have i3: "placeholder_image stub_disk_full 6 = Inr ?src"
    by (simp add: placeholder_image_def canvas_def size_ph_def stub_disk_full_def stub_pil_def)
  have y3: "Image_save stub_disk_full im p ''PNG'' fs = Inl (OSError, fs)" for im p fs
    by (simp add: stub_disk_full_def stub_pil_def)
  have F: "create_placeholder_icon stub_disk_full empty_world
     = Inl (OSError, empty_world\<lparr>files := files empty_world\<rparr>)"
    by (rule font_fallback_only_handler[where L = stub_disk_full and w = empty_world
          and font = 6 and img = ?src and e' = OSError and fs = "files empty_world",
          THEN conjunct2, THEN conjunct2, THEN conjunct2, THEN conjunct2, THEN conjunct2,
          THEN conjunct2, THEN conjunct2, THEN conjunct2, THEN conjunct2, THEN conjunct2,
          THEN conjunct1, THEN mp])
      (intro conjI f3 i3 y3)
  \<comment> \<open>the placeholder generator, resize raising at the sixth entry\<close>
  have f4: "select_font stub_no_large = Inr 6"
    by (simp add: select_font_def stub_no_large_def stub_pil_def)
  have i4: "placeholder_image stub_no_large 6 = Inr ?src"
    by (simp add: placeholder_image_def canvas_def size_ph_def stub_no_large_def stub_pil_def)
  obtain fs4 where s4: "Image_save stub_no_large ?src source_path ''PNG'' (files empty_world) = Inr fs4"
    by (simp add: stub_no_large_def stub_pil_def)
  from pre1 obtain w4 where l4:
    "icons_loop_ph stub_no_large output_dir_ph ?src (take 5 icons_gen)
      (print_line (''Created source icon: '' @ source_path) (empty_world\<lparr>files := fs4\<rparr>)) = Inr w4"
    unfolding loop_same by blast
  have G: "create_placeholder_icon stub_no_large empty_world = Inl (ValueError, w4)"
    by (rule font_fallback_only_handler[where L = stub_no_large and w = empty_world
          and font = 6 and img = ?src and ?fs0.0 = fs4 and pre = "take 5 icons_gen" and k = ?k
          and n = 120 and post = "drop 6 icons_gen" and ?w2.0 = w4 and e' = ValueError,
          THEN conjunct2, THEN conjunct2, THEN conjunct2, THEN conjunct2, THEN conjunct2,
          THEN conjunct2, THEN conjunct2, THEN conjunct2, THEN conjunct2, THEN conjunct2,
          THEN conjunct2, THEN conjunct1, THEN mp])
      (intro conjI f4 i4 s4 split_ph l4 x1)
  have G': "\<exists>m. stdout w4 = stdout empty_world @ take m progress_ph"
    by (rule font_fallback_only_handler[where L = stub_no_large and w = empty_world
          and w' = w4 and e' = ValueError,
          THEN conjunct2, THEN conjunct2, THEN conjunct2, THEN conjunct1, THEN mp])
      (rule G)
  \<comment> \<open>the placeholder generator, save raising at the sixth entry\<close>
  have f5: "select_font stub_no_120 = Inr 6"
    by (simp add: select_font_def stub_no_120_def stub_pil_def)
  have i5: "placeholder_image stub_no_120 6 = Inr ?src"
    by (simp add: placeholder_image_def canvas_def size_ph_def stub_no_120_def stub_pil_def)
  obtain fs5 where s5: "Image_save stub_no_120 ?src source_path ''PNG'' (files empty_world) = Inr fs5"
    by (simp add: stub_no_120_def stub_pil_def)
  from pre2 obtain w5 where l5:
    "icons_loop_ph stub_no_120 output_dir_ph ?src (take 5 icons_gen)
      (print_line (''Created source icon: '' @ source_path) (empty_world\<lparr>files := fs5\<rparr>)) = Inr w5"
    unfolding loop_same by blast
  have H: "create_placeholder_icon stub_no_120 empty_world = Inl (OSError, w5\<lparr>files := files w5\<rparr>)"
    by (rule font_fallback_only_handler[where L = stub_no_120 and w = empty_world
          and font = 6 and img = ?src and ?fs0.0 = fs5 and pre = "take 5 icons_gen" and k = ?k
          and n = 120 and post = "drop 6 icons_gen" and ?w2.0 = w5 and e' = OSError
          and r = "((120, 120), snd ?src)" and fs = "files w5",
          THEN conjunct2, THEN conjunct2, THEN conjunct2, THEN conjunct2, THEN conjunct2,
          THEN conjunct2, THEN conjunct2, THEN conjunct2, THEN conjunct2, THEN conjunct2,
          THEN conjunct2, THEN conjunct2, THEN mp])
      (intro conjI f5 i5 s5 split_ph l5 x2 y2)
  have c1: "\<exists>w'. create_placeholder_icon stub_pil empty_world = Inr w' \<and>
      stdout w' = stdout empty_world @ progress_ph"
    using w' B by blast
  have c2: "\<exists>w2. generate_icons stub_no_large ''/repo'' stub_world = Inl (ValueError, w2)"
    using D by blast
  have c3: "\<exists>w2 fs. Image_save stub_no_120 ((120, 120), (0, 122, 255))
        (path_join (output_dir_gen ''/repo'') ''icon_40x40@3x.png'') ''PNG'' (files w2)
          = Inl (OSError, fs) \<and>
      generate_icons stub_no_120 ''/repo'' stub_world = Inl (OSError, w2\<lparr>files := fs\<rparr>)"
    using E y2 by blast
  have c4: "\<exists>w2 m. create_placeholder_icon stub_no_large empty_world = Inl (ValueError, w2) \<and>
      stdout w2 = stdout empty_world @ take m progress_ph"
    using G G' by blast
  have c5: "\<exists>w2 fs. create_placeholder_icon stub_no_120 empty_world
      = Inl (OSError, w2\<lparr>files := fs\<rparr>)"
    using H by blast
  note A1 = A[THEN conjunct1] and A2 = A[THEN conjunct2]
  from t A1 A2 d i c1 o C x1 c2 c3 d6 F1 b7 F2 d8 F3 F c4 c5 show ?thesis
    by (intro conjI)
qed

end
